theory Spec2Isabelle
  imports Main "HOL-Library.Multiset"
begin

section \<open>Data model\<close>

text \<open>
  A song snapshot is the dictionary the engine passes around. The keys the engine itself
  writes are \<open>file_location\<close>, \<open>name\<close>, \<open>title\<close>, \<open>singer\<close>, \<open>duration\<close> and
  \<open>genre\<close>; a key that is absent or holds Python's \<open>None\<close> is \<open>None\<close> here.
\<close>

record song =
  file_location :: string
  name :: string
  title :: string
  singer :: "string option"
  duration :: "int option"
  genre :: "string option"

text \<open>Values of the free-form metadata dictionary; \<open>PObject\<close> stands for any value that
  \<open>json.dumps\<close> rejects.\<close>

datatype pyval = PStr string | PInt int | PNone | PObject

subsection \<open>The relational store (yt\_db.py, \<open>_init_playlist_db\<close>)\<close>

text \<open>
  One SQLite file holds the three tables. A table is the list of its rows in rowid order.
  The \<open>added_date\<close>, \<open>created_date\<close> and \<open>modified_date\<close> columns (wall-clock defaults)
  are left out. \<open>song_data\<close> holds the song that the stored JSON text encodes.
  \<open>unavailable\<close> says that \<open>sqlite3.connect\<close> or a statement raises; \<open>foreign_keys\<close> is
  SQLite's pragma of that name, which decides whether \<open>ON DELETE CASCADE\<close> fires.
\<close>

record music_row =
  music_id :: int
  music_name :: string
  music_metadata :: "(string \<times> pyval) list"
  music_singer :: "string option"
  music_cinema :: "string option"
  music_album :: "string option"
  music_duration :: "int option"
  music_file_location :: string
  music_genre :: "string option"
  music_rating :: "int option"

record playlists_row =
  playlists_id :: int
  playlists_name :: string

record playlist_songs_row =
  ps_id :: int
  ps_playlist_id :: int
  ps_song_data :: song
  ps_position :: int

record database =
  unavailable :: bool
  foreign_keys :: bool
  music :: "music_row list"
  music_seq :: int
  playlists_tbl :: "playlists_row list"
  playlists_seq :: int
  playlist_songs :: "playlist_songs_row list"
  playlist_songs_seq :: int

subsection \<open>The operating system and the media device\<close>

text \<open>The \<open>os.path\<close> functions the code calls; they depend on the platform and on the
  file system, so they are parameters.\<close>

record os =
  path_exists :: "string \<Rightarrow> bool"
  basename :: "string \<Rightarrow> string"
  splitext_root :: "string \<Rightarrow> string"
  abspath :: "string \<Rightarrow> string"

text \<open>The VLC media player, as far as the engine drives it: the loaded media, the playback
  state, the output volume and the position set by \<open>set_time\<close>.\<close>

datatype vlc_state = NothingSpecial | Playing | Paused | Stopped | Ended

record player =
  media :: "string option"
  vlc_state :: vlc_state
  audio_volume :: int
  time_ms :: int

definition player_stop :: "player \<Rightarrow> player" where
  "player_stop p = p\<lparr>vlc_state := Stopped\<rparr>"

definition player_set_media :: "string \<Rightarrow> player \<Rightarrow> player" where
  "player_set_media m p = p\<lparr>media := Some m\<rparr>"

definition player_play :: "player \<Rightarrow> player" where
  "player_play p = p\<lparr>vlc_state := Playing\<rparr>"

definition audio_set_volume :: "int \<Rightarrow> player \<Rightarrow> player" where
  "audio_set_volume v p = p\<lparr>audio_volume := v\<rparr>"

definition set_time :: "int \<Rightarrow> player \<Rightarrow> player" where
  "set_time t p = p\<lparr>time_ms := t\<rparr>"

subsection \<open>The engine state (\<open>MusicEngine.__init__\<close>)\<close>

record engine =
  player :: player
  current_song :: "song option"
  queue :: "song list"
  playlists :: "string \<rightharpoonup> song list"
  current_playlist :: "song list"
  current_playlist_name :: "string option"
  playlist_index :: int
  history :: "song list"
  is_playing :: bool
  volume :: int
  is_muted :: bool
  shuffle :: bool
  repeat :: string

subsection \<open>Results\<close>

text \<open>
  Exceptions the modelled code can raise, the \<open>{'error': ...}\<close> payloads, and the success
  payloads. \<open>Raised\<close> is an exception that escapes the engine method. \<open>OverflowError\<close> is
  what \<open>sqlite3\<close> raises when it binds a Python int that does not fit SQLite's \<open>INTEGER\<close>.
\<close>

datatype exn = IndexError | TypeError | DatabaseError | IntegrityError | OverflowError

datatype error =
    File_not_found string
  | Song_not_found string
  | Playlist_already_exists string
  | Playlist_not_found string
  | Playlist_is_empty string
  | Cannot_delete_Library
  | Cannot_modify_Library
  | Cannot_reorder_Library
  | Cannot_rename_Library
  | Invalid_song_index
  | Invalid_indices
  | Failed_to_create_playlist exn
  | Failed_to_delete_playlist exn
  | Failed_to_add_song_to_playlist exn
  | Failed_to_remove_song_from_playlist exn
  | Failed_to_reorder_playlist exn
  | Failed_to_rename_playlist exn

datatype response =
    Error error
  | Raised exn
  | Status_playing song
  | Status_stopped
  | Status_end_of_playlist
  | Status_no_next_song
  | Status_restarted
  | Status_no_previous_song
  | Volume int
  | Muted bool
  | Playlist_created string nat
  | Playlist_deleted string
  | Song_added_to_playlist string song
  | Song_removed_from_playlist string song
  | Playlist_reordered string
  | Playlist_renamed string string

section \<open>Python containers\<close>

text \<open>List indexing with Python's negative indices; \<open>None\<close> is IndexError.\<close>

definition py_index :: "'a list \<Rightarrow> int \<Rightarrow> 'a option" where
  "py_index xs i =
     (let n = int (length xs); j = (if i < 0 then n + i else i)
      in if 0 \<le> j \<and> j < n then Some (xs ! nat j) else None)"

text \<open>\<open>deque(maxlen=n).append\<close>: append on the right, then drop the leftmost entry when the
  length exceeds the bound.\<close>

definition deque_append :: "nat \<Rightarrow> 'a list \<Rightarrow> 'a \<Rightarrow> 'a list" where
  "deque_append maxlen d x = (let d' = d @ [x] in if length d' > maxlen then tl d' else d')"

definition history_maxlen :: nat where
  "history_maxlen = 50"

section \<open>Playback\<close>

text \<open>\<open>_get_song_info\<close>: the first row of \<open>music\<close> with that path; any failure gives
  \<open>None\<close>.\<close>

definition get_song_info :: "database \<Rightarrow> string \<Rightarrow> song option" where
  "get_song_info db file_path =
     (if unavailable db then None
      else case filter (\<lambda>r. music_file_location r = file_path) (music db) of
             [] \<Rightarrow> None
           | r # _ \<Rightarrow> Some \<lparr>file_location = file_path, name = music_name r,
                            title = music_name r, singer = music_singer r,
                            duration = music_duration r, genre = music_genre r\<rparr>)"

text \<open>The snapshot \<open>play_file\<close> makes current: the store's record of the path, or one
  derived from the file name.\<close>

definition song_of_file :: "os \<Rightarrow> database \<Rightarrow> string \<Rightarrow> song" where
  "song_of_file sys db file_path =
     (case get_song_info db file_path of
        Some song_info \<Rightarrow> song_info
      | None \<Rightarrow> \<lparr>file_location = file_path,
                   name = splitext_root sys (basename sys file_path),
                   title = basename sys file_path,
                   singer = None, duration = None, genre = None\<rparr>)"

definition play_file :: "os \<Rightarrow> database \<Rightarrow> string \<Rightarrow> engine \<Rightarrow> response \<times> engine" where
  "play_file sys db file_path e =
     (if \<not> path_exists sys file_path then (Error (File_not_found file_path), e)
      else
        let p1 = player_play (player_set_media file_path (player_stop (player e)));
            cs = song_of_file sys db file_path;
            p2 = (if \<not> is_muted e then audio_set_volume (volume e) p1 else p1)
        in (Status_playing cs,
            e\<lparr>player := p2, current_song := Some cs, is_playing := True,
              history := deque_append history_maxlen (history e) cs\<rparr>))"

definition stop :: "engine \<Rightarrow> response \<times> engine" where
  "stop e =
     (Status_stopped,
      e\<lparr>player := player_stop (player e), is_playing := False, current_song := None,
        current_playlist_name := None\<rparr>)"

text \<open>The shared tail of \<open>next\<close>, \<open>previous\<close> and \<open>_handle_song_end\<close>:
  \<open>self.play_file(self.current_playlist[self.playlist_index]['file_location'])\<close>.\<close>

definition play_current_index :: "os \<Rightarrow> database \<Rightarrow> engine \<Rightarrow> response \<times> engine" where
  "play_current_index sys db e =
     (case py_index (current_playlist e) (playlist_index e) of
        None \<Rightarrow> (Raised IndexError, e)
      | Some sg \<Rightarrow> play_file sys db (file_location sg) e)"

text \<open>\<open>MusicEngine.next\<close>.\<close>

definition next_song :: "os \<Rightarrow> database \<Rightarrow> engine \<Rightarrow> response \<times> engine" where
  "next_song sys db e =
     (case queue e of
        q # qs \<Rightarrow> play_file sys db (file_location q) (e\<lparr>queue := qs\<rparr>)
      | [] \<Rightarrow>
          if current_playlist e \<noteq> [] then
            let e1 = e\<lparr>playlist_index := playlist_index e + 1\<rparr> in
              if playlist_index e1 \<ge> int (length (current_playlist e1)) then
                if repeat e1 = ''all'' then play_current_index sys db (e1\<lparr>playlist_index := 0\<rparr>)
                else (Status_end_of_playlist, e1)
              else play_current_index sys db e1
          else (Status_no_next_song, e))"

text \<open>\<open>MusicEngine._handle_song_end\<close>; it returns nothing, so the result is the exception that
  escaped, if any, and the state.\<close>

definition escaped :: "response \<times> engine \<Rightarrow> exn option \<times> engine" where
  "escaped re = (case fst re of Raised x \<Rightarrow> (Some x, snd re) | _ \<Rightarrow> (None, snd re))"

definition handle_song_end :: "os \<Rightarrow> database \<Rightarrow> engine \<Rightarrow> exn option \<times> engine" where
  "handle_song_end sys db e =
     (if repeat e = ''one'' then
        (case current_song e of
           None \<Rightarrow> (Some TypeError, e)
         | Some c \<Rightarrow> escaped (play_file sys db (file_location c) e))
      else case queue e of
        q # qs \<Rightarrow> escaped (play_file sys db (file_location q) (e\<lparr>queue := qs\<rparr>))
      | [] \<Rightarrow>
          if current_playlist e \<noteq> [] then
            let e1 = e\<lparr>playlist_index := playlist_index e + 1\<rparr> in
              if playlist_index e1 \<ge> int (length (current_playlist e1)) then
                if repeat e1 = ''all'' then
                  escaped (play_current_index sys db (e1\<lparr>playlist_index := 0\<rparr>))
                else (None, snd (stop e1))
              else escaped (play_current_index sys db e1)
          else (None, snd (stop e)))"

text \<open>\<open>MusicEngine.seek\<close> and \<open>MusicEngine.previous\<close>. \<open>seek\<close> is only modelled for the
  integer position 0 that \<open>previous\<close> passes.\<close>

definition previous :: "os \<Rightarrow> database \<Rightarrow> engine \<Rightarrow> response \<times> engine" where
  "previous sys db e =
     (if current_playlist e \<noteq> [] \<and> playlist_index e > 0 then
        play_current_index sys db (e\<lparr>playlist_index := playlist_index e - 1\<rparr>)
      else if length (history e) \<ge> 2 then
        let e1 = e\<lparr>history := butlast (history e)\<rparr> in
          play_file sys db (file_location (last (history e1))) e1
      else if current_song e \<noteq> None then
        (Status_restarted, e\<lparr>player := set_time 0 (player e)\<rparr>)
      else (Status_no_previous_song, e))"

section \<open>Volume and mute\<close>

definition set_volume :: "int \<Rightarrow> engine \<Rightarrow> response \<times> engine" where
  "set_volume level e =
     (let e1 = e\<lparr>volume := max 0 (min 100 level)\<rparr>;
          e2 = (if \<not> is_muted e1 then e1\<lparr>player := audio_set_volume (volume e1) (player e1)\<rparr>
                else e1)
      in (Volume (volume e2), e2))"

definition toggle_mute :: "engine \<Rightarrow> response \<times> engine" where
  "toggle_mute e =
     (let e1 = (if is_muted e
                then e\<lparr>is_muted := False, player := audio_set_volume (volume e) (player e)\<rparr>
                else e\<lparr>is_muted := True, player := audio_set_volume 0 (player e)\<rparr>)
      in (Muted (is_muted e1), e1))"

section \<open>Storage statements\<close>

text \<open>SQLite's \<open>LOWER\<close> and \<open>LIKE\<close>: both fold ASCII letters only; in a pattern \<open>%\<close> matches
  any run of characters and \<open>_\<close> exactly one.\<close>

definition ascii_lower :: "char \<Rightarrow> char" where
  "ascii_lower c =
     (if 65 \<le> (of_char c :: nat) \<and> (of_char c :: nat) \<le> 90
      then char_of ((of_char c :: nat) + 32) else c)"

fun sql_like :: "string \<Rightarrow> string \<Rightarrow> bool" where
  "sql_like [] s = (s = [])"
| "sql_like (c # p) [] = (c = CHR ''%'' \<and> sql_like p [])"
| "sql_like (c # p) (d # s) =
     (if c = CHR ''%'' then sql_like p (d # s) \<or> sql_like (c # p) s
      else if c = CHR ''_'' then sql_like p s
      else ascii_lower c = ascii_lower d \<and> sql_like p s)"

text \<open>\<open>SELECT id FROM playlists WHERE name = ?\<close> with \<open>fetchone\<close>.\<close>

definition select_playlist_id :: "database \<Rightarrow> string \<Rightarrow> int option" where
  "select_playlist_id db pname =
     (case filter (\<lambda>r. playlists_name r = pname) (playlists_tbl db) of
        [] \<Rightarrow> None
      | r # _ \<Rightarrow> Some (playlists_id r))"

text \<open>\<open>INSERT INTO playlist_songs (playlist_id, song_data, position)\<close>, once per element of
  \<open>enumerate(songs)\<close> counted from \<open>i\<close>; ids come from the AUTOINCREMENT sequence.\<close>

fun insert_songs :: "int \<Rightarrow> int \<Rightarrow> song list \<Rightarrow> database \<Rightarrow> database" where
  "insert_songs pid i [] db = db"
| "insert_songs pid i (sg # sgs) db =
     insert_songs pid (i + 1) sgs
       (db\<lparr>playlist_songs := playlist_songs db @
              [\<lparr>ps_id = playlist_songs_seq db + 1, ps_playlist_id = pid,
                ps_song_data = sg, ps_position = i\<rparr>],
           playlist_songs_seq := playlist_songs_seq db + 1\<rparr>)"

text \<open>\<open>DELETE FROM playlist_songs WHERE playlist_id = ? AND position = ?\<close> and
  \<open>UPDATE playlist_songs SET position = position - 1 WHERE playlist_id = ? AND position > ?\<close>.\<close>

definition delete_at_position ::
  "int \<Rightarrow> int \<Rightarrow> playlist_songs_row list \<Rightarrow> playlist_songs_row list" where
  "delete_at_position pid i rs =
     filter (\<lambda>r. \<not> (ps_playlist_id r = pid \<and> ps_position r = i)) rs"

definition close_gap ::
  "int \<Rightarrow> int \<Rightarrow> playlist_songs_row list \<Rightarrow> playlist_songs_row list" where
  "close_gap pid i rs =
     map (\<lambda>r. if ps_playlist_id r = pid \<and> ps_position r > i
              then r\<lparr>ps_position := ps_position r - 1\<rparr> else r) rs"

text \<open>\<open>SELECT song_data FROM playlist_songs WHERE playlist_id = ? ORDER BY position\<close>.\<close>

definition select_songs :: "database \<Rightarrow> int \<Rightarrow> song list" where
  "select_songs db pid =
     map ps_song_data
       (sort_key ps_position (filter (\<lambda>r. ps_playlist_id r = pid) (playlist_songs db)))"

section \<open>Song registration (\<open>add_music_entry\<close>)\<close>

record music_entry =
  entry_name :: "string option"
  entry_metadata :: "(string \<times> pyval) list option"
  entry_singer :: "string option"
  entry_cinema :: "string option"
  entry_album :: "string option"
  entry_duration :: "int option"
  entry_genre :: "string option"
  entry_rating :: "int option"

definition make_json_safe :: "(string \<times> pyval) list \<Rightarrow> (string \<times> pyval) list" where
  "make_json_safe obj = filter (\<lambda>kv. snd kv \<noteq> PObject) obj"

text \<open>A statement parameter that is an int must fit SQLite's signed 64-bit \<open>INTEGER\<close>;
  \<open>None\<close> binds as \<open>NULL\<close>. Otherwise \<open>cur.execute\<close> raises \<open>OverflowError\<close> and runs
  nothing.\<close>

definition sqlite_integer :: "int option \<Rightarrow> bool" where
  "sqlite_integer v = (case v of None \<Rightarrow> True | Some n \<Rightarrow> - (2 ^ 63) \<le> n \<and> n < 2 ^ 63)"

text \<open>The result is the returned id, or the exception the function lets through: the store
  fails, or the \<open>INSERT\<close> cannot bind \<open>duration\<close> or \<open>rating\<close>. The look-up comes first, so
  a path that is already present never reaches the \<open>INSERT\<close>.\<close>

definition add_music_entry ::
  "os \<Rightarrow> string \<Rightarrow> music_entry \<Rightarrow> database \<Rightarrow> (exn + int) \<times> database" where
  "add_music_entry sys path en db =
     (if unavailable db then (Inl DatabaseError, db)
      else
        let loc = abspath sys path in
          case filter (\<lambda>r. music_file_location r = loc) (music db) of
            existing # _ \<Rightarrow> (Inr (music_id existing), db)
          | [] \<Rightarrow>
              let safe_metadata =
                    make_json_safe (case entry_metadata en of None \<Rightarrow> [] | Some m \<Rightarrow> m);
                  rowid = music_seq db + 1;
                  binds = (sqlite_integer (entry_duration en) \<and> sqlite_integer (entry_rating en));
                  row = \<lparr>music_id = rowid,
                         music_name =
                           (case entry_name en of
                              None \<Rightarrow> basename sys loc
                            | Some n \<Rightarrow> if n = [] then basename sys loc else n),
                         music_metadata = safe_metadata,
                         music_singer = entry_singer en,
                         music_cinema = entry_cinema en,
                         music_album = entry_album en,
                         music_duration = entry_duration en,
                         music_file_location = loc,
                         music_genre = entry_genre en,
                         music_rating = entry_rating en\<rparr>
              in if \<not> binds then (Inl OverflowError, db)
                 else (Inr rowid, db\<lparr>music := music db @ [row], music_seq := rowid\<rparr>))"

section \<open>Playlist management\<close>

text \<open>\<open>list.pop(i)\<close> and \<open>list.insert(i, x)\<close> with Python's index rules.\<close>

definition py_pop :: "'a list \<Rightarrow> int \<Rightarrow> ('a \<times> 'a list) option" where
  "py_pop xs i =
     (let n = int (length xs); j = (if i < 0 then n + i else i)
      in if 0 \<le> j \<and> j < n then Some (xs ! nat j, take (nat j) xs @ drop (Suc (nat j)) xs)
         else None)"

definition py_insert :: "'a list \<Rightarrow> int \<Rightarrow> 'a \<Rightarrow> 'a list" where
  "py_insert xs i x =
     (let n = int (length xs); j = (if i < 0 then max 0 (n + i) else min n i)
      in take (nat j) xs @ x # drop (nat j) xs)"

text \<open>\<open>search_songs\<close> and \<open>_search_song\<close>; a failing query yields no result.\<close>

definition search_songs :: "database \<Rightarrow> string \<Rightarrow> nat \<Rightarrow> song list" where
  "search_songs db query limit =
     (if unavailable db then []
      else take limit
        (map (\<lambda>r. \<lparr>file_location = music_file_location r, name = music_name r,
                   title = music_name r, singer = music_singer r,
                   duration = music_duration r, genre = music_genre r\<rparr>)
           (filter (\<lambda>r. sql_like (map ascii_lower (''%'' @ query @ ''%''))
                                 (map ascii_lower (music_name r)))
              (music db))))"

definition search_song :: "database \<Rightarrow> string \<Rightarrow> song option" where
  "search_song db query = (case search_songs db query 1 of [] \<Rightarrow> None | sg # _ \<Rightarrow> Some sg)"

text \<open>\<open>MusicEngine.create_playlist\<close>.\<close>

definition create_playlist ::
  "string \<Rightarrow> song list option \<Rightarrow> engine \<Rightarrow> database \<Rightarrow> response \<times> engine \<times> database" where
  "create_playlist pname songs e db =
     (if playlists e pname \<noteq> None then (Error (Playlist_already_exists pname), e, db)
      else if unavailable db then (Error (Failed_to_create_playlist DatabaseError), e, db)
      else if pname \<in> set (map playlists_name (playlists_tbl db))
        then (Error (Failed_to_create_playlist IntegrityError), e, db)
      else
        let playlist_id = playlists_seq db + 1;
            db1 = db\<lparr>playlists_tbl := playlists_tbl db @
                         [\<lparr>playlists_id = playlist_id, playlists_name = pname\<rparr>],
                     playlists_seq := playlist_id\<rparr>;
            sgs = (case songs of None \<Rightarrow> [] | Some l \<Rightarrow> l);
            db2 = insert_songs playlist_id 0 sgs db1
        in (Playlist_created pname (length sgs),
            e\<lparr>playlists := (playlists e)(pname \<mapsto> sgs)\<rparr>, db2))"

text \<open>\<open>MusicEngine.delete_playlist\<close>.\<close>

definition delete_playlist ::
  "string \<Rightarrow> engine \<Rightarrow> database \<Rightarrow> response \<times> engine \<times> database" where
  "delete_playlist pname e db =
     (if pname = ''Library'' then (Error Cannot_delete_Library, e, db)
      else if playlists e pname = None then (Error (Playlist_not_found pname), e, db)
      else if unavailable db then (Error (Failed_to_delete_playlist DatabaseError), e, db)
      else
        let gone = map playlists_id (filter (\<lambda>r. playlists_name r = pname) (playlists_tbl db));
            db1 = db\<lparr>playlists_tbl := filter (\<lambda>r. playlists_name r \<noteq> pname) (playlists_tbl db),
                     playlist_songs :=
                       (if foreign_keys db
                        then filter (\<lambda>r. ps_playlist_id r \<notin> set gone) (playlist_songs db)
                        else playlist_songs db)\<rparr>;
            e1 = e\<lparr>playlists := (playlists e)(pname := None)\<rparr>;
            e2 = (if current_playlist_name e1 = Some pname
                  then e1\<lparr>current_playlist := [], current_playlist_name := None,
                          playlist_index := 0\<rparr>
                  else e1)
        in (Playlist_deleted pname, e2, db1))"

text \<open>\<open>MusicEngine.add_to_playlist\<close>.\<close>

definition add_to_playlist ::
  "os \<Rightarrow> string \<Rightarrow> string \<Rightarrow> engine \<Rightarrow> database \<Rightarrow> response \<times> engine \<times> database" where
  "add_to_playlist sys pname song_name e db =
     (case playlists e pname of
        None \<Rightarrow> (Error (Playlist_not_found pname), e, db)
      | Some pl \<Rightarrow>
          let found =
                (case search_song db song_name of
                   Some sg \<Rightarrow> Some sg
                 | None \<Rightarrow>
                     if path_exists sys song_name
                     then Some \<lparr>file_location = song_name,
                                name = splitext_root sys (basename sys song_name),
                                title = splitext_root sys (basename sys song_name),
                                singer = None, duration = None, genre = None\<rparr>
                     else None)
          in case found of
               None \<Rightarrow> (Error (Song_not_found song_name), e, db)
             | Some song_data \<Rightarrow>
                 if unavailable db
                 then (Error (Failed_to_add_song_to_playlist DatabaseError), e, db)
                 else
                   let db1 = (case select_playlist_id db pname of
                                None \<Rightarrow> db
                              | Some playlist_id \<Rightarrow>
                                  insert_songs playlist_id (int (length pl)) [song_data] db);
                       e1 = e\<lparr>playlists := (playlists e)(pname \<mapsto> pl @ [song_data])\<rparr>;
                       e2 = (if current_playlist_name e1 = Some pname
                             then e1\<lparr>current_playlist := (current_playlist e1 @ [song_data])\<rparr>
                             else e1)
                   in (Song_added_to_playlist pname song_data, e2, db1))"

text \<open>\<open>MusicEngine.remove_from_playlist\<close>. The in-memory list is popped after the commit; the
  pop of the bound copy can raise inside the \<open>try\<close>, after both.\<close>

definition remove_from_playlist ::
  "string \<Rightarrow> int \<Rightarrow> engine \<Rightarrow> database \<Rightarrow> response \<times> engine \<times> database" where
  "remove_from_playlist pname index e db =
     (case playlists e pname of
        None \<Rightarrow> (Error (Playlist_not_found pname), e, db)
      | Some pl \<Rightarrow>
          if pname = ''Library'' then (Error Cannot_modify_Library, e, db)
          else if \<not> (0 \<le> index \<and> index < int (length pl))
            then (Error Invalid_song_index, e, db)
          else if unavailable db
            then (Error (Failed_to_remove_song_from_playlist DatabaseError), e, db)
          else
            let removed_song = pl ! nat index;
                db1 = (case select_playlist_id db pname of
                         None \<Rightarrow> db
                       | Some playlist_id \<Rightarrow>
                           db\<lparr>playlist_songs :=
                                close_gap playlist_id index
                                  (delete_at_position playlist_id index (playlist_songs db))\<rparr>);
                e1 = e\<lparr>playlists :=
                         (playlists e)(pname \<mapsto> take (nat index) pl @ drop (Suc (nat index)) pl)\<rparr>
            in if current_playlist_name e1 = Some pname then
                 (case py_pop (current_playlist e1) index of
                    None \<Rightarrow> (Error (Failed_to_remove_song_from_playlist IndexError), e1, db1)
                  | Some (_, rest) \<Rightarrow>
                      (Song_removed_from_playlist pname removed_song,
                       e1\<lparr>current_playlist := rest,
                          playlist_index := (if playlist_index e1 > index
                                             then playlist_index e1 - 1
                                             else playlist_index e1)\<rparr>,
                       db1))
               else (Song_removed_from_playlist pname removed_song, e1, db1))"

text \<open>\<open>MusicEngine.reorder_playlist\<close>. The stored list is reordered in memory first, then
  the membership rows are rewritten, then the bound copy follows.\<close>

definition reorder_playlist ::
  "string \<Rightarrow> int \<Rightarrow> int \<Rightarrow> engine \<Rightarrow> database \<Rightarrow> response \<times> engine \<times> database" where
  "reorder_playlist pname from_index to_index e db =
     (case playlists e pname of
        None \<Rightarrow> (Error (Playlist_not_found pname), e, db)
      | Some pl \<Rightarrow>
          if pname = ''Library'' then (Error Cannot_reorder_Library, e, db)
          else if \<not> (0 \<le> from_index \<and> from_index < int (length pl) \<and>
                     0 \<le> to_index \<and> to_index < int (length pl))
            then (Error Invalid_indices, e, db)
          else
            let pl1 = py_insert (take (nat from_index) pl @ drop (Suc (nat from_index)) pl)
                        to_index (pl ! nat from_index);
                e1 = e\<lparr>playlists := (playlists e)(pname \<mapsto> pl1)\<rparr>
            in if unavailable db
               then (Error (Failed_to_reorder_playlist DatabaseError), e1, db)
               else
                 let db1 = (case select_playlist_id db pname of
                              None \<Rightarrow> db
                            | Some playlist_id \<Rightarrow>
                                insert_songs playlist_id 0 pl1
                                  (db\<lparr>playlist_songs :=
                                        filter (\<lambda>r. ps_playlist_id r \<noteq> playlist_id)
                                          (playlist_songs db)\<rparr>))
                 in if current_playlist_name e1 = Some pname then
                      (case py_pop (current_playlist e1) from_index of
                         None \<Rightarrow> (Error (Failed_to_reorder_playlist IndexError), e1, db1)
                       | Some (sg, rest) \<Rightarrow>
                           (Playlist_reordered pname,
                            e1\<lparr>current_playlist := py_insert rest to_index sg,
                               playlist_index :=
                                 (if playlist_index e1 = from_index then to_index
                                  else if from_index < playlist_index e1 \<and>
                                          playlist_index e1 \<le> to_index
                                    then playlist_index e1 - 1
                                  else if to_index \<le> playlist_index e1 \<and>
                                          playlist_index e1 < from_index
                                    then playlist_index e1 + 1
                                  else playlist_index e1)\<rparr>,
                            db1))
                    else (Playlist_reordered pname, e1, db1))"

text \<open>\<open>MusicEngine.rename_playlist\<close>. The \<open>UNIQUE\<close> constraint on \<open>playlists.name\<close> rejects
  the update when a row of the old name would take a name that another row holds.\<close>

definition rename_playlist ::
  "string \<Rightarrow> string \<Rightarrow> engine \<Rightarrow> database \<Rightarrow> response \<times> engine \<times> database" where
  "rename_playlist old_name new_name e db =
     (if old_name = ''Library'' then (Error Cannot_rename_Library, e, db)
      else case playlists e old_name of
        None \<Rightarrow> (Error (Playlist_not_found old_name), e, db)
      | Some pl \<Rightarrow>
          if playlists e new_name \<noteq> None then (Error (Playlist_already_exists new_name), e, db)
          else if unavailable db
            then (Error (Failed_to_rename_playlist DatabaseError), e, db)
          else if old_name \<in> set (map playlists_name (playlists_tbl db)) \<and>
                  new_name \<in> set (map playlists_name (playlists_tbl db))
            then (Error (Failed_to_rename_playlist IntegrityError), e, db)
          else
            let db1 = db\<lparr>playlists_tbl :=
                           map (\<lambda>r. if playlists_name r = old_name
                                    then r\<lparr>playlists_name := new_name\<rparr> else r)
                             (playlists_tbl db)\<rparr>;
                e1 = e\<lparr>playlists := ((playlists e)(old_name := None))(new_name \<mapsto> pl)\<rparr>;
                e2 = (if current_playlist_name e1 = Some old_name
                      then e1\<lparr>current_playlist_name := Some new_name\<rparr> else e1)
            in (Playlist_renamed old_name new_name, e2, db1))"

text \<open>\<open>MusicEngine.play_playlist\<close>; \<open>shuffled\<close> is the order \<open>random.shuffle\<close> produces.\<close>

definition play_playlist ::
  "os \<Rightarrow> database \<Rightarrow> (song list \<Rightarrow> song list) \<Rightarrow> string \<Rightarrow> engine \<Rightarrow> response \<times> engine" where
  "play_playlist sys db shuffled pname e =
     (case playlists e pname of
        None \<Rightarrow> (Error (Playlist_not_found pname), e)
      | Some pl \<Rightarrow>
          if pl = [] then (Error (Playlist_is_empty pname), e)
          else
            let e1 = e\<lparr>current_playlist := pl, current_playlist_name := Some pname,
                       playlist_index := 0\<rparr>;
                e2 = (if shuffle e1 then e1\<lparr>current_playlist := shuffled (current_playlist e1)\<rparr>
                      else e1)
            in play_current_index sys db e2)"

section \<open>The invariants the claims speak of\<close>

text \<open>The bound copy of a playlist has as many entries as the stored playlist it was taken
  from: every mutation of a stored playlist mirrors itself in the copy bound under that name.\<close>

definition bound_in_step :: "engine \<Rightarrow> bool" where
  "bound_in_step e =
     (case current_playlist_name e of
        None \<Rightarrow> True
      | Some pname \<Rightarrow>
          (case playlists e pname of
             None \<Rightarrow> False
           | Some pl \<Rightarrow> length (current_playlist e) = length pl))"

text \<open>The membership rows of a playlist mirror the list \<open>pl\<close>: the playlist has a row, and the
  (position, song) pairs of its membership rows are exactly the pairs \<open>(k, pl ! k)\<close> for
  \<open>k = 0, ..., length pl - 1\<close>, each once. So positions are dense and 0-based.\<close>

definition rows_of :: "database \<Rightarrow> int \<Rightarrow> (int \<times> song) list" where
  "rows_of db pid =
     map (\<lambda>r. (ps_position r, ps_song_data r))
       (filter (\<lambda>r. ps_playlist_id r = pid) (playlist_songs db))"

fun enumerate_from :: "int \<Rightarrow> 'a list \<Rightarrow> (int \<times> 'a) list" where
  "enumerate_from i [] = []"
| "enumerate_from i (x # xs) = (i, x) # enumerate_from (i + 1) xs"

definition numbered :: "song list \<Rightarrow> (int \<times> song) list" where
  "numbered pl = enumerate_from 0 pl"

text \<open>What \<open>UPDATE playlist_songs SET position = position - 1 WHERE ... position > i\<close> does to
  a (position, song) pair.\<close>

definition renumber :: "int \<Rightarrow> int \<times> 'a \<Rightarrow> int \<times> 'a" where
  "renumber i p = (if fst p > i then fst p - 1 else fst p, snd p)"

definition stored_as :: "database \<Rightarrow> string \<Rightarrow> song list \<Rightarrow> bool" where
  "stored_as db pname pl =
     (case select_playlist_id db pname of
        None \<Rightarrow> False
      | Some pid \<Rightarrow> mset (rows_of db pid) = mset (numbered pl))"

text \<open>The list after \<open>song = xs.pop(f); xs.insert(t, song)\<close> for indices in range.\<close>

definition moved :: "nat \<Rightarrow> nat \<Rightarrow> 'a list \<Rightarrow> 'a list" where
  "moved f t xs =
     take t (take f xs @ drop (Suc f) xs) @ xs ! f # drop t (take f xs @ drop (Suc f) xs)"

section \<open>Start-up (\<open>MusicEngine.__init__\<close>)\<close>

text \<open>\<open>_load_library\<close>, \<open>_load_saved_playlists\<close> and the initial field values. The player
  is whatever VLC hands out.\<close>

definition load_library :: "database \<Rightarrow> song list" where
  "load_library db =
     (if unavailable db then []
      else map (\<lambda>r. \<lparr>file_location = music_file_location r, name = music_name r,
                     title = music_name r, singer = music_singer r,
                     duration = music_duration r, genre = None\<rparr>)
             (music db))"

definition load_saved_playlists ::
  "database \<Rightarrow> (string \<rightharpoonup> song list) \<Rightarrow> (string \<rightharpoonup> song list)" where
  "load_saved_playlists db m =
     (if unavailable db then m
      else fold (\<lambda>r acc. acc(playlists_name r \<mapsto> select_songs db (playlists_id r)))
             (playlists_tbl db) m)"

definition init_engine :: "player \<Rightarrow> database \<Rightarrow> engine" where
  "init_engine p db =
     \<lparr>player = p, current_song = None, queue = [],
      playlists = load_saved_playlists db [''Library'' \<mapsto> load_library db],
      current_playlist = [], current_playlist_name = None, playlist_index = 0,
      history = [], is_playing = False, volume = 75, is_muted = False,
      shuffle = False, repeat = ''off''\<rparr>"

section \<open>Concrete states for the worked examples\<close>

text \<open>A platform on which the three example files exist and paths are already absolute; the
  base name is what follows the last slash and the root what precedes the last dot.\<close>

definition song_a :: song where
  "song_a = \<lparr>file_location = ''/music/a.mp3'', name = ''a'', title = ''a'',
             singer = None, duration = None, genre = None\<rparr>"

definition song_b :: song where
  "song_b = \<lparr>file_location = ''/music/b.mp3'', name = ''b'', title = ''b'',
             singer = None, duration = None, genre = None\<rparr>"

definition song_c :: song where
  "song_c = \<lparr>file_location = ''/music/c.mp3'', name = ''c'', title = ''c'',
             singer = None, duration = None, genre = None\<rparr>"

text \<open>A song whose file is not on the example platform.\<close>

definition song_zz :: song where
  "song_zz = \<lparr>file_location = ''/music/zz.mp3'', name = ''zz'', title = ''zz'',
              singer = None, duration = None, genre = None\<rparr>"

definition example_os :: os where
  "example_os =
     \<lparr>path_exists = (\<lambda>p. p \<in> set [''/music/a.mp3'', ''/music/b.mp3'', ''/music/c.mp3'']),
      basename = (\<lambda>p. rev (takeWhile (\<lambda>c. c \<noteq> CHR ''/'') (rev p))),
      splitext_root = (\<lambda>p. rev (tl (dropWhile (\<lambda>c. c \<noteq> CHR ''.'') (rev p)))),
      abspath = (\<lambda>p. p)\<rparr>"

definition empty_db :: database where
  "empty_db =
     \<lparr>unavailable = False, foreign_keys = False, music = [], music_seq = 0,
      playlists_tbl = [], playlists_seq = 0, playlist_songs = [], playlist_songs_seq = 0\<rparr>"

definition fresh_player :: player where
  "fresh_player = \<lparr>media = None, vlc_state = NothingSpecial, audio_volume = 100, time_ms = 0\<rparr>"

text \<open>The engine right after start-up on the empty store.\<close>

definition engine0 :: engine where
  "engine0 = init_engine fresh_player empty_db"

text \<open>The engine after one \<open>toggle_mute\<close>.\<close>

definition muted_engine :: engine where
  "muted_engine = snd (toggle_mute engine0)"

text \<open>Playlist \<open>P = [a, b]\<close> bound and playing its first song.\<close>

definition playing_P :: engine where
  "playing_P =
     engine0\<lparr>playlists := (playlists engine0)(''P'' \<mapsto> [song_a, song_b]),
             current_playlist := [song_a, song_b], current_playlist_name := Some ''P'',
             playlist_index := 0, current_song := Some song_a, is_playing := True,
             history := [song_a],
             player := \<lparr>media = Some ''/music/a.mp3'', vlc_state = Playing,
                        audio_volume = 75, time_ms = 0\<rparr>\<rparr>"

text \<open>The store after \<open>create_playlist('P', [a, b])\<close> on the empty store.\<close>

definition db_P :: database where
  "db_P = snd (snd (create_playlist ''P'' (Some [song_a, song_b]) engine0 empty_db))"

text \<open>The same state with a full history: 49 times \<open>b\<close>, then \<open>a\<close>.\<close>

definition full_history :: engine where
  "full_history = playing_P\<lparr>history := replicate 49 song_b @ [song_a]\<rparr>"

text \<open>Playlist \<open>P = [a, b, c]\<close> bound at its last index, and the store after
  \<open>create_playlist('P', [a, b, c])\<close> on the empty store.\<close>

definition playing_abc :: engine where
  "playing_abc =
     playing_P\<lparr>playlists := (playlists engine0)(''P'' \<mapsto> [song_a, song_b, song_c]),
               current_playlist := [song_a, song_b, song_c], playlist_index := 2\<rparr>"

definition db_abc :: database where
  "db_abc = snd (snd (create_playlist ''P'' (Some [song_a, song_b, song_c]) engine0 empty_db))"

text \<open>A registration that passes only the path.\<close>

definition plain_entry :: music_entry where
  "plain_entry =
     \<lparr>entry_name = None, entry_metadata = None, entry_singer = None, entry_cinema = None,
      entry_album = None, entry_duration = None, entry_genre = None, entry_rating = None\<rparr>"

text \<open>A registration whose duration is \<open>2 ^ 63\<close>, one beyond SQLite's largest \<open>INTEGER\<close>.\<close>

definition overlong_entry :: music_entry where
  "overlong_entry = plain_entry\<lparr>entry_duration := Some (2 ^ 63)\<rparr>"

section \<open>Playing a file\<close>

lemma play_file_missing:
  "\<not> path_exists sys p \<Longrightarrow> play_file sys db p e = (Error (File_not_found p), e)"
  by (simp add: play_file_def)

lemma get_song_info_location:
  "get_song_info db p = Some sg \<Longrightarrow> file_location sg = p"
  by (auto simp: get_song_info_def split: if_splits list.splits)

lemma song_of_file_location: "file_location (song_of_file sys db p) = p"
  by (auto simp: song_of_file_def get_song_info_location split: option.splits)

lemma play_file_present:
  "path_exists sys p \<Longrightarrow>
     play_file sys db p e =
       (Status_playing (song_of_file sys db p),
        e\<lparr>player := (if \<not> is_muted e then audio_set_volume (volume e) else (\<lambda>x. x))
                       (player_play (player_set_media p (player_stop (player e)))),
          current_song := Some (song_of_file sys db p), is_playing := True,
          history := deque_append history_maxlen (history e) (song_of_file sys db p)\<rparr>)"
  by (simp add: play_file_def Let_def)

lemma play_file_frame:
  "queue (snd (play_file sys db p e)) = queue e"
  "playlists (snd (play_file sys db p e)) = playlists e"
  "current_playlist (snd (play_file sys db p e)) = current_playlist e"
  "current_playlist_name (snd (play_file sys db p e)) = current_playlist_name e"
  "playlist_index (snd (play_file sys db p e)) = playlist_index e"
  "volume (snd (play_file sys db p e)) = volume e"
  "is_muted (snd (play_file sys db p e)) = is_muted e"
  "repeat (snd (play_file sys db p e)) = repeat e"
  "shuffle (snd (play_file sys db p e)) = shuffle e"
  by (cases "path_exists sys p"; simp add: play_file_missing play_file_present)+

lemma play_file_device:
  "path_exists sys p \<Longrightarrow>
     media (player (snd (play_file sys db p e))) = Some p \<and>
     vlc_state (player (snd (play_file sys db p e))) = Playing"
  by (simp add: play_file_present player_play_def player_set_media_def player_stop_def
      audio_set_volume_def)

lemma escaped_snd: "snd (escaped re) = snd re"
  by (simp add: escaped_def split: response.splits)

lemma play_current_index_not_no_next:
  "fst (play_current_index sys db e) \<noteq> Status_no_next_song"
  by (cases "path_exists sys (file_location (the (py_index (current_playlist e) (playlist_index e))))")
     (auto simp: play_current_index_def play_file_missing play_file_present split: option.splits)

lemma play_current_index_frame:
  "playlist_index (snd (play_current_index sys db e)) = playlist_index e"
  "queue (snd (play_current_index sys db e)) = queue e"
  "playlists (snd (play_current_index sys db e)) = playlists e"
  "current_playlist (snd (play_current_index sys db e)) = current_playlist e"
  "current_playlist_name (snd (play_current_index sys db e)) = current_playlist_name e"
  by (simp_all add: play_current_index_def play_file_frame split: option.splits)

section \<open>Advancing to the next song\<close>

lemma next_song_queue:
  "queue e \<noteq> [] \<Longrightarrow>
     next_song sys db e =
       play_file sys db (file_location (hd (queue e))) (e\<lparr>queue := tl (queue e)\<rparr>)"
  by (cases "queue e") (simp_all add: next_song_def)

lemma handle_song_end_queue:
  "queue e \<noteq> [] \<Longrightarrow> repeat e \<noteq> ''one'' \<Longrightarrow>
     snd (handle_song_end sys db e) =
       snd (play_file sys db (file_location (hd (queue e))) (e\<lparr>queue := tl (queue e)\<rparr>))"
  by (cases "queue e") (simp_all add: handle_song_end_def escaped_snd)

lemma next_song_playlist:
  assumes "queue e = []" "current_playlist e \<noteq> []"
  shows "fst (next_song sys db e) \<noteq> Status_no_next_song"
    and "playlist_index (snd (next_song sys db e)) =
           (if playlist_index e + 1 \<ge> int (length (current_playlist e))
            then (if repeat e = ''all'' then 0 else playlist_index e + 1)
            else playlist_index e + 1)"
  using assms
  by (simp_all add: next_song_def Let_def play_current_index_not_no_next play_current_index_frame)

lemma next_song_nothing:
  "queue e = [] \<Longrightarrow> current_playlist e = [] \<Longrightarrow> next_song sys db e = (Status_no_next_song, e)"
  by (simp add: next_song_def)

text \<open>
  Claim C1, as stated, says that \<open>next\<close> plays the queue head in every state with a non-empty
  queue and a bound playlist. \<open>add_to_queue\<close> never tests the file, and \<open>play_file\<close> refuses a
  path that does not exist. With \<open>P = [a, b]\<close> bound and playing \<open>a\<close>, and \<open>zz\<close> (whose file
  is missing) queued before \<open>c\<close>, \<open>next\<close> pops \<open>zz\<close>, answers \<open>File not found\<close> and plays
  nothing: \<open>a\<close> stays the current song and stays loaded in the device.
\<close>

theorem next_pops_missing_head:
  "queue (playing_P\<lparr>queue := [song_zz, song_c]\<rparr>) = [song_zz, song_c]
   \<and> current_playlist_name (playing_P\<lparr>queue := [song_zz, song_c]\<rparr>) = Some ''P''
   \<and> next_song example_os empty_db (playing_P\<lparr>queue := [song_zz, song_c]\<rparr>)
       = (Error (File_not_found ''/music/zz.mp3''), playing_P\<lparr>queue := [song_c]\<rparr>)
   \<and> current_song (snd (next_song example_os empty_db (playing_P\<lparr>queue := [song_zz, song_c]\<rparr>)))
       = Some song_a
   \<and> media (player (snd (next_song example_os empty_db
        (playing_P\<lparr>queue := [song_zz, song_c]\<rparr>)))) = Some ''/music/a.mp3''"
  by (simp add: next_song_def play_file_def playing_P_def engine0_def init_engine_def
      example_os_def song_zz_def)

text \<open>
  Claim C1, amended. When the queue is not empty, \<open>next\<close> pops the head of the queue, and the
  bound playlist, its name and its index stay as they were, whether or not a playlist is
  bound. When the file of the popped head exists, \<open>next\<close> plays it: it becomes the current
  song and the device plays its file. When the file does not exist, \<open>next\<close> answers
  \<open>File not found\<close> and changes nothing but the queue. The end-of-track handler reaches the
  same state when repeat is not \<open>one\<close>. With an empty queue and a bound playlist, \<open>next\<close>
  moves the playlist index and never answers \<open>no_next_song\<close>; with neither, it answers
  \<open>no_next_song\<close> and changes nothing.
\<close>

theorem queue_takes_priority:
  "(queue e \<noteq> [] \<longrightarrow>
      (let q = hd (queue e); e' = snd (next_song sys db e); h' = snd (handle_song_end sys db e)
       in queue e' = tl (queue e)
        \<and> playlist_index e' = playlist_index e
        \<and> current_playlist e' = current_playlist e
        \<and> current_playlist_name e' = current_playlist_name e
        \<and> (path_exists sys (file_location q) \<longrightarrow>
             fst (next_song sys db e) = Status_playing (song_of_file sys db (file_location q))
           \<and> current_song e' = Some (song_of_file sys db (file_location q))
           \<and> file_location (song_of_file sys db (file_location q)) = file_location q
           \<and> is_playing e'
           \<and> media (player e') = Some (file_location q)
           \<and> vlc_state (player e') = Playing)
        \<and> (\<not> path_exists sys (file_location q) \<longrightarrow>
             fst (next_song sys db e) = Error (File_not_found (file_location q))
           \<and> e' = e\<lparr>queue := tl (queue e)\<rparr>)
        \<and> (repeat e \<noteq> ''one'' \<longrightarrow> h' = e')))
   \<and> (queue e = [] \<and> current_playlist e \<noteq> [] \<longrightarrow>
        fst (next_song sys db e) \<noteq> Status_no_next_song
      \<and> playlist_index (snd (next_song sys db e)) =
           (if playlist_index e + 1 \<ge> int (length (current_playlist e))
            then (if repeat e = ''all'' then 0 else playlist_index e + 1)
            else playlist_index e + 1))
   \<and> (queue e = [] \<and> current_playlist e = [] \<longrightarrow>
        next_song sys db e = (Status_no_next_song, e))"
proof (intro conjI impI)
  assume q: "queue e \<noteq> []"
  let ?p = "file_location (hd (queue e))"
  have ex: "path_exists sys ?p \<Longrightarrow>
              fst (next_song sys db e) = Status_playing (song_of_file sys db ?p)
            \<and> current_song (snd (next_song sys db e)) = Some (song_of_file sys db ?p)
            \<and> is_playing (snd (next_song sys db e))"
    using q by (simp add: next_song_queue play_file_present)
  have missing: "\<not> path_exists sys ?p \<Longrightarrow>
              next_song sys db e = (Error (File_not_found ?p), e\<lparr>queue := tl (queue e)\<rparr>)"
    using q by (simp add: next_song_queue play_file_missing)
  show "let q = hd (queue e); e' = snd (next_song sys db e); h' = snd (handle_song_end sys db e)
       in queue e' = tl (queue e)
        \<and> playlist_index e' = playlist_index e
        \<and> current_playlist e' = current_playlist e
        \<and> current_playlist_name e' = current_playlist_name e
        \<and> (path_exists sys (file_location q) \<longrightarrow>
             fst (next_song sys db e) = Status_playing (song_of_file sys db (file_location q))
           \<and> current_song e' = Some (song_of_file sys db (file_location q))
           \<and> file_location (song_of_file sys db (file_location q)) = file_location q
           \<and> is_playing e'
           \<and> media (player e') = Some (file_location q)
           \<and> vlc_state (player e') = Playing)
        \<and> (\<not> path_exists sys (file_location q) \<longrightarrow>
             fst (next_song sys db e) = Error (File_not_found (file_location q))
           \<and> e' = e\<lparr>queue := tl (queue e)\<rparr>)
        \<and> (repeat e \<noteq> ''one'' \<longrightarrow> h' = e')"
    using q ex missing
    by (simp add: Let_def next_song_queue handle_song_end_queue play_file_frame
        play_file_device song_of_file_location)
next
  assume "queue e = [] \<and> current_playlist e \<noteq> []"
  then show "fst (next_song sys db e) \<noteq> Status_no_next_song"
    by (simp add: next_song_playlist)
next
  assume "queue e = [] \<and> current_playlist e \<noteq> []"
  then show "playlist_index (snd (next_song sys db e)) =
           (if playlist_index e + 1 \<ge> int (length (current_playlist e))
            then (if repeat e = ''all'' then 0 else playlist_index e + 1)
            else playlist_index e + 1)"
    by (simp add: next_song_playlist)
next
  assume "queue e = [] \<and> current_playlist e = []"
  then show "next_song sys db e = (Status_no_next_song, e)"
    by (simp add: next_song_nothing)
qed

text \<open>The cases on concrete states: song \<open>c\<close> queued while playlist \<open>P\<close> is bound at index 0;
  the song \<open>zz\<close> without a file queued in the same state; the same state with an empty queue;
  the engine right after start-up.\<close>

theorem queue_takes_priority_witness:
  "queue (playing_P\<lparr>queue := [song_c]\<rparr>) \<noteq> []
   \<and> path_exists example_os (file_location song_c)
   \<and> repeat playing_P \<noteq> ''one''
   \<and> fst (next_song example_os empty_db (playing_P\<lparr>queue := [song_c]\<rparr>))
       = Status_playing (song_of_file example_os empty_db ''/music/c.mp3'')
   \<and> queue (snd (next_song example_os empty_db (playing_P\<lparr>queue := [song_c]\<rparr>))) = []
   \<and> playlist_index (snd (next_song example_os empty_db (playing_P\<lparr>queue := [song_c]\<rparr>))) = 0
   \<and> queue (playing_P\<lparr>queue := [song_zz]\<rparr>) \<noteq> []
   \<and> \<not> path_exists example_os (file_location song_zz)
   \<and> fst (next_song example_os empty_db (playing_P\<lparr>queue := [song_zz]\<rparr>))
       = Error (File_not_found ''/music/zz.mp3'')
   \<and> queue (snd (next_song example_os empty_db (playing_P\<lparr>queue := [song_zz]\<rparr>))) = []
   \<and> playlist_index (snd (next_song example_os empty_db (playing_P\<lparr>queue := [song_zz]\<rparr>))) = 0
   \<and> queue playing_P = [] \<and> current_playlist playing_P \<noteq> []
   \<and> playlist_index (snd (next_song example_os empty_db playing_P)) = 1
   \<and> queue engine0 = [] \<and> current_playlist engine0 = []
   \<and> next_song example_os empty_db engine0 = (Status_no_next_song, engine0)"
  using queue_takes_priority [of "playing_P\<lparr>queue := [song_c]\<rparr>" example_os empty_db]
    queue_takes_priority [of "playing_P\<lparr>queue := [song_zz]\<rparr>" example_os empty_db]
    queue_takes_priority [of playing_P example_os empty_db]
    queue_takes_priority [of engine0 example_os empty_db]
  by (simp add: playing_P_def engine0_def init_engine_def song_c_def song_zz_def example_os_def
      Let_def)

text \<open>At the end of the bound playlist, without repeat \<open>all\<close>, \<open>next\<close> only moves the index.\<close>

lemma next_song_at_end:
  assumes "queue e = []" "current_playlist e \<noteq> []"
    and "int (length (current_playlist e)) \<le> playlist_index e + 1" "repeat e \<noteq> ''all''"
  shows "next_song sys db e = (Status_end_of_playlist, e\<lparr>playlist_index := playlist_index e + 1\<rparr>)"
  using assms by (simp add: next_song_def Let_def)

text \<open>
  Claim C3. With playlist \<open>P = [a, b]\<close> bound at its last index 1, an empty queue and repeat
  \<open>off\<close>, \<open>next\<close> answers \<open>end_of_playlist\<close>, yet song \<open>a\<close> stays current, the engine stays
  marked as playing and the device keeps playing; only the index moves, to 2. The
  end-of-track handler calls \<open>stop\<close> in this branch, \<open>next\<close> does not.
\<close>

theorem next_at_end_keeps_playing:
  "next_song example_os empty_db (playing_P\<lparr>playlist_index := 1\<rparr>)
     = (Status_end_of_playlist, playing_P\<lparr>playlist_index := 2\<rparr>)
   \<and> is_playing (snd (next_song example_os empty_db (playing_P\<lparr>playlist_index := 1\<rparr>)))
   \<and> current_song (snd (next_song example_os empty_db (playing_P\<lparr>playlist_index := 1\<rparr>)))
       = Some song_a
   \<and> vlc_state (player (snd (next_song example_os empty_db (playing_P\<lparr>playlist_index := 1\<rparr>))))
       = Playing"
  by (simp add: next_song_def playing_P_def engine0_def init_engine_def Let_def)

text \<open>What the end-of-track handler does in the same state: it stops.\<close>

lemma handle_song_end_at_end_stops:
  "snd (handle_song_end example_os empty_db (playing_P\<lparr>playlist_index := 1\<rparr>))
     = snd (stop (playing_P\<lparr>playlist_index := 2\<rparr>))
   \<and> \<not> is_playing (snd (handle_song_end example_os empty_db (playing_P\<lparr>playlist_index := 1\<rparr>)))
   \<and> current_song (snd (handle_song_end example_os empty_db (playing_P\<lparr>playlist_index := 1\<rparr>)))
       = None"
  by (simp add: handle_song_end_def stop_def playing_P_def engine0_def init_engine_def Let_def)

section \<open>Stopping\<close>

lemma stop_frame:
  "queue (snd (stop e)) = queue e"
  "playlists (snd (stop e)) = playlists e"
  "current_playlist (snd (stop e)) = current_playlist e"
  "playlist_index (snd (stop e)) = playlist_index e"
  "history (snd (stop e)) = history e"
  "current_song (snd (stop e)) = None"
  "current_playlist_name (snd (stop e)) = None"
  "\<not> is_playing (snd (stop e))"
  by (simp_all add: stop_def)

text \<open>
  Claim C4. \<open>stop\<close> on the state that plays \<open>P = [a, b]\<close> at index 0 clears the playlist name
  but keeps the bound song list and the index, so the \<open>next\<close> that follows resumes the
  playlist: it plays \<open>b\<close> and moves the index to 1.
\<close>

theorem stop_keeps_bound_songs:
  "current_playlist (snd (stop playing_P)) = [song_a, song_b]
   \<and> playlist_index (snd (stop playing_P)) = 0
   \<and> current_playlist_name (snd (stop playing_P)) = None
   \<and> fst (next_song example_os empty_db (snd (stop playing_P)))
       = Status_playing (song_of_file example_os empty_db ''/music/b.mp3'')
   \<and> playlist_index (snd (next_song example_os empty_db (snd (stop playing_P)))) = 1"
  by (simp add: stop_def next_song_def play_current_index_def py_index_def play_file_def
      playing_P_def engine0_def init_engine_def example_os_def song_a_def song_b_def Let_def)

section \<open>Volume and mute\<close>

text \<open>
  Claim C8. For every integer \<open>v\<close>, \<open>set_volume v\<close> stores 0 when \<open>v\<close> is negative, 100 when
  \<open>v\<close> exceeds 100 and \<open>v\<close> otherwise, so the stored volume lies in the range 0 to 100, and
  the call reports the stored value.
\<close>

theorem set_volume_stores_clamped:
  "volume (snd (set_volume v e)) = (if v < 0 then 0 else if v > 100 then 100 else v)
   \<and> 0 \<le> volume (snd (set_volume v e)) \<and> volume (snd (set_volume v e)) \<le> 100
   \<and> fst (set_volume v e) = Volume (volume (snd (set_volume v e)))"
  by (simp add: set_volume_def Let_def)

lemma toggle_mute_when_unmuted:
  "\<not> is_muted e \<Longrightarrow>
     snd (toggle_mute e) = e\<lparr>is_muted := True, player := audio_set_volume 0 (player e)\<rparr>"
  by (simp add: toggle_mute_def)

lemma toggle_mute_when_muted:
  "is_muted e \<Longrightarrow>
     snd (toggle_mute e) =
       e\<lparr>is_muted := False, player := audio_set_volume (volume e) (player e)\<rparr>"
  by (simp add: toggle_mute_def)

lemma set_volume_when_muted:
  "is_muted e \<Longrightarrow> snd (set_volume v e) = e\<lparr>volume := max 0 (min 100 v)\<rparr>"
  by (simp add: set_volume_def Let_def)

text \<open>
  Claim C7, as stated for every state, fails on a state that is already muted: there the
  first \<open>toggle_mute\<close> unmutes and the last one mutes, so the device ends at 0. The state is
  the engine after start-up and one \<open>toggle_mute\<close>.
\<close>

theorem mute_volume_unmute_from_muted:
  "is_muted muted_engine
   \<and> audio_volume (player (snd (toggle_mute (snd (set_volume 50 (snd (toggle_mute
        muted_engine))))))) = 0"
  by (simp add: muted_engine_def toggle_mute_def set_volume_def audio_set_volume_def Let_def
      engine0_def init_engine_def fresh_player_def)

text \<open>
  Claim C7, amended: from every state that is not muted, \<open>toggle_mute\<close> sets the device
  output to 0 and keeps the stored volume; \<open>set_volume 50\<close> while muted stores 50 and leaves
  the device alone; the second \<open>toggle_mute\<close> unmutes and sets the device output to 50.
\<close>

theorem mute_volume_unmute:
  assumes "\<not> is_muted e"
  shows "let e1 = snd (toggle_mute e); e2 = snd (set_volume 50 e1); e3 = snd (toggle_mute e2)
         in is_muted e1 \<and> audio_volume (player e1) = 0 \<and> volume e1 = volume e
          \<and> is_muted e2 \<and> volume e2 = 50 \<and> player e2 = player e1
          \<and> \<not> is_muted e3 \<and> volume e3 = 50 \<and> audio_volume (player e3) = 50"
  using assms
  by (simp add: toggle_mute_when_unmuted toggle_mute_when_muted set_volume_when_muted
      audio_set_volume_def Let_def)

theorem mute_volume_unmute_witness:
  "\<not> is_muted engine0 \<and> volume engine0 = 75
   \<and> audio_volume (player (snd (toggle_mute (snd (set_volume 50 (snd (toggle_mute
        engine0))))))) = 50"
  using mute_volume_unmute [of engine0]
  by (simp add: engine0_def init_engine_def Let_def)

section \<open>The playback history\<close>

lemma deque_append_length:
  "length d \<le> n \<Longrightarrow> length (deque_append n d x) \<le> n"
  by (simp add: deque_append_def Let_def)

lemma deque_append_eq:
  "length d \<le> n \<Longrightarrow> 0 < n \<Longrightarrow>
     deque_append n d x = (if length d = n then tl d else d) @ [x]"
  by (cases d) (auto simp: deque_append_def Let_def)

lemma play_file_history_bound:
  "length (history e) \<le> 50 \<Longrightarrow> length (history (snd (play_file sys db p e))) \<le> 50"
  by (cases "path_exists sys p")
     (simp_all add: play_file_missing play_file_present deque_append_length history_maxlen_def)

lemma play_current_index_history_bound:
  "length (history e) \<le> 50 \<Longrightarrow> length (history (snd (play_current_index sys db e))) \<le> 50"
  by (simp add: play_current_index_def play_file_history_bound split: option.splits)

lemma next_song_history_bound:
  "length (history e) \<le> 50 \<Longrightarrow> length (history (snd (next_song sys db e))) \<le> 50"
  by (simp add: next_song_def Let_def play_file_history_bound play_current_index_history_bound
      split: list.splits)

lemma handle_song_end_history_bound:
  "length (history e) \<le> 50 \<Longrightarrow> length (history (snd (handle_song_end sys db e))) \<le> 50"
  by (simp add: handle_song_end_def Let_def escaped_snd stop_def play_file_history_bound
      play_current_index_history_bound split: list.splits option.splits)

lemma previous_history_bound:
  "length (history e) \<le> 50 \<Longrightarrow> length (history (snd (previous sys db e))) \<le> 50"
  by (simp add: previous_def Let_def play_file_history_bound play_current_index_history_bound)

lemma play_playlist_history_bound:
  "length (history e) \<le> 50 \<Longrightarrow> length (history (snd (play_playlist sys db sh pn e))) \<le> 50"
  by (simp add: play_playlist_def Let_def play_current_index_history_bound split: option.splits)

text \<open>
  Claim C10. The history is empty at start-up. From a history of at most 50 entries, a
  successful \<open>play_file\<close> makes the played song current and appends it to the history, after
  dropping the oldest entry when the history already holds 50, the others keeping their
  order; a failed one changes nothing. \<open>play_file\<close>, \<open>next\<close>, the end-of-track handler,
  \<open>previous\<close> and \<open>play_playlist\<close>, the operations that touch the history, all leave it with at
  most 50 entries.
\<close>

theorem history_capped:
  assumes "length (history e) \<le> 50"
  shows "(path_exists sys p \<longrightarrow>
           (let sg = song_of_file sys db p; e' = snd (play_file sys db p e)
            in fst (play_file sys db p e) = Status_playing sg \<and> current_song e' = Some sg
             \<and> history e' =
                 (if length (history e) = 50 then tl (history e) else history e) @ [sg]))
       \<and> (\<not> path_exists sys p \<longrightarrow> play_file sys db p e = (Error (File_not_found p), e))
       \<and> length (history (snd (play_file sys db p e))) \<le> 50
       \<and> length (history (snd (next_song sys db e))) \<le> 50
       \<and> length (history (snd (handle_song_end sys db e))) \<le> 50
       \<and> length (history (snd (previous sys db e))) \<le> 50
       \<and> length (history (snd (play_playlist sys db sh pn e))) \<le> 50
       \<and> history (init_engine pl0 db) = []"
proof -
  have "path_exists sys p \<Longrightarrow>
          history (snd (play_file sys db p e)) =
            (if length (history e) = 50 then tl (history e) else history e)
              @ [song_of_file sys db p]"
    using assms by (simp add: play_file_present deque_append_eq history_maxlen_def)
  then show ?thesis
    using assms
    by (simp add: Let_def play_file_present play_file_missing play_file_history_bound
        next_song_history_bound handle_song_end_history_bound previous_history_bound
        play_playlist_history_bound init_engine_def del: One_nat_def)
qed

theorem history_capped_witness:
  "length (history full_history) = 50
   \<and> path_exists example_os ''/music/c.mp3''
   \<and> history (snd (play_file example_os empty_db ''/music/c.mp3'' full_history))
       = replicate 48 song_b @ [song_a, song_of_file example_os empty_db ''/music/c.mp3'']
   \<and> length (history (snd (play_file example_os empty_db ''/music/c.mp3'' full_history))) = 50"
  using history_capped [of full_history example_os "''/music/c.mp3''" empty_db id "''P''"
      fresh_player]
  by (simp add: full_history_def playing_P_def example_os_def Let_def)

section \<open>Song registration\<close>

lemma add_music_entry_unavailable:
  "unavailable db \<Longrightarrow> add_music_entry sys path en db = (Inl DatabaseError, db)"
  by (simp add: add_music_entry_def)

lemma add_music_entry_present:
  assumes "\<not> unavailable db"
    and "filter (\<lambda>r. music_file_location r = abspath sys path) (music db) = r # rs"
  shows "add_music_entry sys path en db = (Inr (music_id r), db)"
  using assms by (simp add: add_music_entry_def Let_def)

lemma add_music_entry_overflow:
  assumes "\<not> unavailable db"
    and "filter (\<lambda>r. music_file_location r = abspath sys path) (music db) = []"
    and "\<not> (sqlite_integer (entry_duration en) \<and> sqlite_integer (entry_rating en))"
  shows "add_music_entry sys path en db = (Inl OverflowError, db)"
  using assms by (auto simp: add_music_entry_def Let_def)

lemma add_music_entry_absent:
  assumes "\<not> unavailable db"
    and "filter (\<lambda>r. music_file_location r = abspath sys path) (music db) = []"
    and "sqlite_integer (entry_duration en)" "sqlite_integer (entry_rating en)"
  shows "fst (add_music_entry sys path en db) = Inr (music_seq db + 1)"
    and "\<exists>row. music (snd (add_music_entry sys path en db)) = music db @ [row]
             \<and> music_id row = music_seq db + 1
             \<and> music_file_location row = abspath sys path"
  using assms by (simp_all add: add_music_entry_def Let_def)

lemma add_music_entry_available:
  "\<not> unavailable db \<Longrightarrow> \<not> unavailable (snd (add_music_entry sys path en db))"
  by (simp add: add_music_entry_def Let_def split: list.splits)

text \<open>Only \<open>add_music_entry\<close> inserts into \<open>music\<close>, and it keeps the stored paths pairwise
  different.\<close>

lemma add_music_entry_distinct:
  assumes "distinct (map music_file_location (music db))"
  shows "distinct (map music_file_location (music (snd (add_music_entry sys path en db))))"
proof (cases "unavailable db")
  case True
  then show ?thesis using assms by (simp add: add_music_entry_def)
next
  case False
  show ?thesis
  proof (cases "filter (\<lambda>r. music_file_location r = abspath sys path) (music db)")
    case Nil
    then have "abspath sys path \<notin> music_file_location ` set (music db)"
      by (auto simp: filter_empty_conv)
    with Nil False assms show ?thesis
      by (simp add: add_music_entry_def Let_def)
  next
    case (Cons r rs)
    with False assms show ?thesis by (simp add: add_music_entry_present)
  qed
qed

text \<open>
  Claim C9, as stated, has both of two calls with the same path return the same id. On the
  empty table, a first registration of \<open>/music/a.mp3\<close> with duration \<open>2 ^ 63\<close> raises
  \<open>OverflowError\<close> at the \<open>INSERT\<close> and inserts nothing; the second call, with no duration,
  inserts the row and returns id 1.
\<close>

theorem add_music_entry_first_call_raises:
  "fst (add_music_entry example_os ''/music/a.mp3'' overlong_entry empty_db) = Inl OverflowError
   \<and> music (snd (add_music_entry example_os ''/music/a.mp3'' overlong_entry empty_db)) = []
   \<and> fst (add_music_entry example_os ''/music/a.mp3'' plain_entry
            (snd (add_music_entry example_os ''/music/a.mp3'' overlong_entry empty_db))) = Inr 1"
  by (simp add: add_music_entry_def empty_db_def example_os_def overlong_entry_def
      plain_entry_def sqlite_integer_def Let_def make_json_safe_def)

text \<open>
  Claim C9, amended. Let the second call pass a path with the same absolute path as the
  first. The first call raises and leaves the store as it is when the store fails, or when
  the path is new and \<open>duration\<close> or \<open>rating\<close> does not fit SQLite's \<open>INTEGER\<close>. Otherwise it
  returns an id: for a path already in the table, the id of the first row that holds it,
  inserting nothing; for a new path, the id of the one row it inserts. Whenever the first
  call returns an id, the second call returns the same id and inserts nothing, and the
  number of rows for the path is then the number before the calls or 1, whichever is larger:
  exactly one when there was at most one before.
\<close>

theorem add_music_entry_idempotent:
  assumes "abspath sys path2 = abspath sys path"
  shows "let here = (\<lambda>r. music_file_location r = abspath sys path);
             binds = (sqlite_integer (entry_duration en) \<and> sqlite_integer (entry_rating en));
             first = add_music_entry sys path en db;
             second = add_music_entry sys path2 en2 (snd first)
         in (unavailable db \<longrightarrow> first = (Inl DatabaseError, db))
          \<and> (\<not> unavailable db \<and> filter here (music db) \<noteq> [] \<longrightarrow>
               first = (Inr (music_id (hd (filter here (music db)))), db))
          \<and> (\<not> unavailable db \<and> filter here (music db) = [] \<and> \<not> binds \<longrightarrow>
               first = (Inl OverflowError, db))
          \<and> (\<not> unavailable db \<and> filter here (music db) = [] \<and> binds \<longrightarrow>
               fst first = Inr (music_seq db + 1)
             \<and> length (filter here (music (snd first))) = 1)
          \<and> ((\<exists>i. fst first = Inr i) \<longrightarrow>
               fst second = fst first
             \<and> snd second = snd first
             \<and> length (filter here (music (snd second)))
                 = max 1 (length (filter here (music db)))
             \<and> (length (filter here (music db)) \<le> 1 \<longrightarrow>
                  length (filter here (music (snd second))) = 1))"
proof (cases "unavailable db")
  case True
  then show ?thesis by (simp add: add_music_entry_unavailable Let_def)
next
  case False
  show ?thesis
  proof (cases "filter (\<lambda>r. music_file_location r = abspath sys path) (music db)")
    case (Cons r rs)
    have first: "add_music_entry sys path en db = (Inr (music_id r), db)"
      using False Cons by (rule add_music_entry_present)
    have second: "add_music_entry sys path2 en2 db = (Inr (music_id r), db)"
      using add_music_entry_present[OF False, of sys path2 r rs en2] Cons assms by simp
    show ?thesis
      using False Cons first second by (simp add: Let_def)
  next
    case Nil
    show ?thesis
    proof (cases "sqlite_integer (entry_duration en) \<and> sqlite_integer (entry_rating en)")
      case nb: False
      have "add_music_entry sys path en db = (Inl OverflowError, db)"
        using False Nil nb by (rule add_music_entry_overflow)
      then show ?thesis
        using False Nil nb by (simp add: Let_def)
    next
      case True
      then have b: "sqlite_integer (entry_duration en)" "sqlite_integer (entry_rating en)"
        by simp_all
      from add_music_entry_absent(2)[OF False Nil b]
      obtain row where row: "music (snd (add_music_entry sys path en db)) = music db @ [row]"
        "music_id row = music_seq db + 1" "music_file_location row = abspath sys path"
        by blast
      have f1: "filter (\<lambda>r. music_file_location r = abspath sys path)
                  (music (snd (add_music_entry sys path en db))) = [row]"
        using Nil row by simp
      have av: "\<not> unavailable (snd (add_music_entry sys path en db))"
        using False by (rule add_music_entry_available)
      have second: "add_music_entry sys path2 en2 (snd (add_music_entry sys path en db))
                      = (Inr (music_id row), snd (add_music_entry sys path en db))"
        using add_music_entry_present[OF av, of sys path2 row "[]" en2] f1 assms by simp
      show ?thesis
        using False Nil True f1 second row add_music_entry_absent(1)[OF False Nil b]
        by (simp add: Let_def)
    qed
  qed
qed

theorem add_music_entry_idempotent_witness:
  "abspath example_os ''/music/a.mp3'' = abspath example_os ''/music/a.mp3''
   \<and> \<not> unavailable empty_db
   \<and> sqlite_integer (entry_duration plain_entry) \<and> sqlite_integer (entry_rating plain_entry)
   \<and> fst (add_music_entry example_os ''/music/a.mp3'' plain_entry empty_db) = Inr 1
   \<and> fst (add_music_entry example_os ''/music/a.mp3'' plain_entry
            (snd (add_music_entry example_os ''/music/a.mp3'' plain_entry empty_db))) = Inr 1
   \<and> length (music (snd (add_music_entry example_os ''/music/a.mp3'' plain_entry
            (snd (add_music_entry example_os ''/music/a.mp3'' plain_entry empty_db))))) = 1"
  using add_music_entry_idempotent [of example_os "''/music/a.mp3''" "''/music/a.mp3''"
      plain_entry empty_db plain_entry]
  by (simp add: add_music_entry_def empty_db_def example_os_def plain_entry_def Let_def
      make_json_safe_def sqlite_integer_def)

section \<open>Playlist mutations and storage failures\<close>

text \<open>Five of the six mutations touch the in-memory state only after the storage statements
  went through: when the store fails they return an error and leave the engine and the store
  as they were.\<close>

lemma storage_failure_leaves_memory:
  assumes "unavailable db"
  shows "fst (snd (create_playlist pn songs e db)) = e
         \<and> snd (snd (create_playlist pn songs e db)) = db
         \<and> (\<exists>err. fst (create_playlist pn songs e db) = Error err)"
    and "fst (snd (delete_playlist pn e db)) = e
         \<and> snd (snd (delete_playlist pn e db)) = db
         \<and> (\<exists>err. fst (delete_playlist pn e db) = Error err)"
    and "fst (snd (add_to_playlist sys pn sn e db)) = e
         \<and> snd (snd (add_to_playlist sys pn sn e db)) = db
         \<and> (\<exists>err. fst (add_to_playlist sys pn sn e db) = Error err)"
    and "fst (snd (remove_from_playlist pn i e db)) = e
         \<and> snd (snd (remove_from_playlist pn i e db)) = db
         \<and> (\<exists>err. fst (remove_from_playlist pn i e db) = Error err)"
    and "fst (snd (rename_playlist pn pn2 e db)) = e
         \<and> snd (snd (rename_playlist pn pn2 e db)) = db
         \<and> (\<exists>err. fst (rename_playlist pn pn2 e db) = Error err)"
  using assms
  by (simp_all add: create_playlist_def delete_playlist_def add_to_playlist_def
      remove_from_playlist_def rename_playlist_def Let_def split: option.splits)

text \<open>
  Claim C2. \<open>reorder_playlist\<close> moves the song in the stored in-memory list before it talks
  to the store. With \<open>P = [a, b]\<close> and a store that fails, \<open>reorder_playlist P 0 1\<close> returns
  the error \<open>Failed to reorder playlist\<close>, and the playlist map holds \<open>P = [b, a]\<close> afterwards.
\<close>

theorem reorder_commits_before_storage:
  "reorder_playlist ''P'' 0 1 playing_P (db_P\<lparr>unavailable := True\<rparr>)
     = (Error (Failed_to_reorder_playlist DatabaseError),
        playing_P\<lparr>playlists := (playlists playing_P)(''P'' \<mapsto> [song_b, song_a])\<rparr>,
        db_P\<lparr>unavailable := True\<rparr>)
   \<and> playlists playing_P ''P'' = Some [song_a, song_b]
   \<and> playlists (fst (snd (reorder_playlist ''P'' 0 1 playing_P (db_P\<lparr>unavailable := True\<rparr>))))
       ''P'' = Some [song_b, song_a]
   \<and> song_a \<noteq> song_b"
  by (simp add: reorder_playlist_def py_insert_def playing_P_def engine0_def init_engine_def
      Let_def song_a_def song_b_def)

section \<open>Removing a song from a playlist\<close>

lemma py_pop_valid:
  "0 \<le> i \<Longrightarrow> i < int (length xs) \<Longrightarrow>
     py_pop xs i = Some (xs ! nat i, take (nat i) xs @ drop (Suc (nat i)) xs)"
  by (simp add: py_pop_def Let_def)

lemma py_insert_valid:
  "0 \<le> i \<Longrightarrow> i \<le> int (length xs) \<Longrightarrow>
     py_insert xs i x = take (nat i) xs @ x # drop (nat i) xs"
  by (simp add: py_insert_def Let_def min_def)

lemma nth_without:
  "k < length (take i xs @ drop (Suc i) xs) \<Longrightarrow>
     (take i xs @ drop (Suc i) xs) ! k = (if k < i then xs ! k else xs ! Suc k)"
  by (auto simp: nth_append min_def)

lemma remove_rows_pairs:
  "map (\<lambda>r. (ps_position r, ps_song_data r))
     (filter (\<lambda>r. ps_playlist_id r = pid) (close_gap pid i (delete_at_position pid i rs)))
   = map (renumber i)
       (filter (\<lambda>p. fst p \<noteq> i)
          (map (\<lambda>r. (ps_position r, ps_song_data r)) (filter (\<lambda>r. ps_playlist_id r = pid) rs)))"
  by (induction rs) (auto simp: renumber_def close_gap_def delete_at_position_def)

lemma rows_of_after_remove:
  "rows_of (db\<lparr>playlist_songs := close_gap pid i (delete_at_position pid i (playlist_songs db))\<rparr>)
     pid
   = map (renumber i) (filter (\<lambda>p. fst p \<noteq> i) (rows_of db pid))"
  by (simp add: rows_of_def remove_rows_pairs)

lemma enumerate_from_later:
  "i < j \<Longrightarrow>
     map (renumber i) (filter (\<lambda>p. fst p \<noteq> i) (enumerate_from j xs)) = enumerate_from (j - 1) xs"
  by (induction xs arbitrary: j) (auto simp: renumber_def)

lemma enumerate_from_without:
  "j \<le> i \<Longrightarrow> i < j + int (length xs) \<Longrightarrow>
     map (renumber i) (filter (\<lambda>p. fst p \<noteq> i) (enumerate_from j xs))
       = enumerate_from j (take (nat (i - j)) xs @ drop (Suc (nat (i - j))) xs)"
proof (induction xs arbitrary: j)
  case Nil
  then show ?case by simp
next
  case (Cons x xs)
  show ?case
  proof (cases "i = j")
    case True
    then show ?thesis
      using enumerate_from_later [of i "j + 1" xs] by simp
  next
    case False
    with Cons.prems have lt: "j + 1 \<le> i" "i < (j + 1) + int (length xs)" by simp_all
    have n: "nat (i - j) = Suc (nat (i - (j + 1)))" using lt by simp
    show ?thesis
      using False Cons.IH [OF lt] Cons.prems by (simp add: n renumber_def)
  qed
qed

lemma stored_as_after_remove:
  assumes "stored_as db pn pl" "0 \<le> i" "i < int (length pl)"
    and "select_playlist_id db pn = Some pid"
  shows "stored_as
           (db\<lparr>playlist_songs := close_gap pid i (delete_at_position pid i (playlist_songs db))\<rparr>)
           pn (take (nat i) pl @ drop (Suc (nat i)) pl)"
proof -
  let ?db' = "db\<lparr>playlist_songs := close_gap pid i (delete_at_position pid i (playlist_songs db))\<rparr>"
  have same: "select_playlist_id ?db' pn = Some pid"
    using assms(4) by (simp add: select_playlist_id_def)
  have before: "mset (rows_of db pid) = mset (numbered pl)"
    using assms(1,4) by (simp add: stored_as_def)
  have "mset (rows_of ?db' pid)
          = image_mset (renumber i) (filter_mset (\<lambda>p. fst p \<noteq> i) (mset (rows_of db pid)))"
    by (simp add: rows_of_after_remove)
  also have "\<dots> = mset (map (renumber i) (filter (\<lambda>p. fst p \<noteq> i) (numbered pl)))"
    by (simp add: before)
  also have "\<dots> = mset (numbered (take (nat i) pl @ drop (Suc (nat i)) pl))"
    using enumerate_from_without [of 0 i pl] assms(2,3) by (simp add: numbered_def)
  finally show ?thesis
    using same by (simp add: stored_as_def)
qed

lemma remove_from_playlist_ok:
  assumes "playlists e pn = Some pl" "pn \<noteq> ''Library''" "0 \<le> i" "i < int (length pl)"
    and "\<not> unavailable db" "bound_in_step e"
  shows "fst (remove_from_playlist pn i e db) = Song_removed_from_playlist pn (pl ! nat i)"
    and "playlists (fst (snd (remove_from_playlist pn i e db)))
           = (playlists e)(pn \<mapsto> take (nat i) pl @ drop (Suc (nat i)) pl)"
    and "current_playlist_name (fst (snd (remove_from_playlist pn i e db)))
           = current_playlist_name e"
    and "current_playlist_name e = Some pn \<Longrightarrow>
           current_playlist (fst (snd (remove_from_playlist pn i e db)))
             = take (nat i) (current_playlist e) @ drop (Suc (nat i)) (current_playlist e)
         \<and> playlist_index (fst (snd (remove_from_playlist pn i e db)))
             = (if playlist_index e > i then playlist_index e - 1 else playlist_index e)"
    and "current_playlist_name e \<noteq> Some pn \<Longrightarrow>
           current_playlist (fst (snd (remove_from_playlist pn i e db))) = current_playlist e
         \<and> playlist_index (fst (snd (remove_from_playlist pn i e db))) = playlist_index e"
    and "snd (snd (remove_from_playlist pn i e db))
           = (case select_playlist_id db pn of
                None \<Rightarrow> db
              | Some pid \<Rightarrow>
                  db\<lparr>playlist_songs :=
                       close_gap pid i (delete_at_position pid i (playlist_songs db))\<rparr>)"
proof -
  have len: "current_playlist_name e = Some pn \<Longrightarrow> length (current_playlist e) = length pl"
    using assms(1,6) by (simp add: bound_in_step_def)
  have pop: "current_playlist_name e = Some pn \<Longrightarrow>
               py_pop (current_playlist e) i
                 = Some (current_playlist e ! nat i,
                         take (nat i) (current_playlist e) @ drop (Suc (nat i)) (current_playlist e))"
    using len assms(3,4) by (simp add: py_pop_valid)
  show "fst (remove_from_playlist pn i e db) = Song_removed_from_playlist pn (pl ! nat i)"
    using assms(1-5) pop by (simp add: remove_from_playlist_def Let_def)
  show "playlists (fst (snd (remove_from_playlist pn i e db)))
           = (playlists e)(pn \<mapsto> take (nat i) pl @ drop (Suc (nat i)) pl)"
    using assms(1-5) pop by (simp add: remove_from_playlist_def Let_def)
  show "current_playlist_name (fst (snd (remove_from_playlist pn i e db)))
           = current_playlist_name e"
    using assms(1-5) pop by (simp add: remove_from_playlist_def Let_def)
  show "current_playlist_name e = Some pn \<Longrightarrow>
           current_playlist (fst (snd (remove_from_playlist pn i e db)))
             = take (nat i) (current_playlist e) @ drop (Suc (nat i)) (current_playlist e)
         \<and> playlist_index (fst (snd (remove_from_playlist pn i e db)))
             = (if playlist_index e > i then playlist_index e - 1 else playlist_index e)"
    using assms(1-5) pop by (simp add: remove_from_playlist_def Let_def)
  show "current_playlist_name e \<noteq> Some pn \<Longrightarrow>
           current_playlist (fst (snd (remove_from_playlist pn i e db))) = current_playlist e
         \<and> playlist_index (fst (snd (remove_from_playlist pn i e db))) = playlist_index e"
    using assms(1-5) by (simp add: remove_from_playlist_def Let_def)
  show "snd (snd (remove_from_playlist pn i e db))
           = (case select_playlist_id db pn of
                None \<Rightarrow> db
              | Some pid \<Rightarrow>
                  db\<lparr>playlist_songs :=
                       close_gap pid i (delete_at_position pid i (playlist_songs db))\<rparr>)"
    using assms(1-5) pop
    by (cases "current_playlist_name e = Some pn") (simp_all add: remove_from_playlist_def Let_def)
qed

lemma remove_from_playlist_in_step:
  assumes "playlists e pn = Some pl" "pn \<noteq> ''Library''" "0 \<le> i" "i < int (length pl)"
    and "\<not> unavailable db" "bound_in_step e"
  shows "bound_in_step (fst (snd (remove_from_playlist pn i e db)))"
proof (cases "current_playlist_name e = Some pn")
  case True
  have "length (current_playlist e) = length pl"
    using True assms(1,6) by (simp add: bound_in_step_def)
  then show ?thesis
    using True assms(3,4) remove_from_playlist_ok(2,3,4)[OF assms]
    by (simp add: bound_in_step_def)
next
  case False
  then show ?thesis
    using assms(6) remove_from_playlist_ok(2,3,5)[OF assms]
    by (auto simp: bound_in_step_def split: option.splits)
qed

text \<open>
  Claim C5. \<open>remove_from_playlist\<close> answers \<open>Playlist not found\<close> for an unknown playlist,
  \<open>Cannot modify Library playlist\<close> for the Library and \<open>Invalid song index\<close> for an index
  outside \<open>[0, len)\<close>, changing nothing. For an existing playlist other than the Library, an
  index \<open>i\<close> in range, a store that answers and a bound copy in step with the stored playlist,
  it returns the removed song; the stored playlist loses exactly entry \<open>i\<close>: it is one shorter,
  entries before \<open>i\<close> stay and every later entry moves down by one. When the playlist is the
  bound one, the bound copy loses its entry \<open>i\<close> and the current index drops by one exactly
  when \<open>i\<close> is below it; otherwise copy and index are untouched. The copy stays in step, and
  membership rows that mirrored the playlist with positions \<open>0, ..., len - 1\<close> mirror the
  new list with positions \<open>0, ..., len - 2\<close>.
\<close>

theorem remove_from_playlist_renumbers:
  "(playlists e pn = None \<longrightarrow>
      remove_from_playlist pn i e db = (Error (Playlist_not_found pn), e, db))
   \<and> (playlists e ''Library'' \<noteq> None \<longrightarrow>
        remove_from_playlist ''Library'' i e db = (Error Cannot_modify_Library, e, db))
   \<and> (playlists e pn = Some pl \<and> pn \<noteq> ''Library'' \<and> \<not> (0 \<le> i \<and> i < int (length pl)) \<longrightarrow>
        remove_from_playlist pn i e db = (Error Invalid_song_index, e, db))
   \<and> (playlists e pn = Some pl \<and> pn \<noteq> ''Library'' \<and> 0 \<le> i \<and> i < int (length pl)
        \<and> \<not> unavailable db \<and> bound_in_step e \<longrightarrow>
        (let res = remove_from_playlist pn i e db; e' = fst (snd res); db' = snd (snd res);
             pl' = take (nat i) pl @ drop (Suc (nat i)) pl
         in fst res = Song_removed_from_playlist pn (pl ! nat i)
          \<and> playlists e' = (playlists e)(pn \<mapsto> pl')
          \<and> length pl' + 1 = length pl
          \<and> (\<forall>k. k < length pl' \<longrightarrow> pl' ! k = (if k < nat i then pl ! k else pl ! Suc k))
          \<and> current_playlist_name e' = current_playlist_name e
          \<and> (current_playlist_name e = Some pn \<longrightarrow>
                current_playlist e'
                  = take (nat i) (current_playlist e) @ drop (Suc (nat i)) (current_playlist e)
              \<and> playlist_index e'
                  = (if i < playlist_index e then playlist_index e - 1 else playlist_index e))
          \<and> (current_playlist_name e \<noteq> Some pn \<longrightarrow>
                current_playlist e' = current_playlist e \<and> playlist_index e' = playlist_index e)
          \<and> bound_in_step e'
          \<and> (stored_as db pn pl \<longrightarrow> stored_as db' pn pl')))"
proof (intro conjI impI)
  assume "playlists e pn = None"
  then show "remove_from_playlist pn i e db = (Error (Playlist_not_found pn), e, db)"
    by (simp add: remove_from_playlist_def)
next
  assume "playlists e ''Library'' \<noteq> None"
  then show "remove_from_playlist ''Library'' i e db = (Error Cannot_modify_Library, e, db)"
    by (auto simp: remove_from_playlist_def)
next
  assume "playlists e pn = Some pl \<and> pn \<noteq> ''Library'' \<and> \<not> (0 \<le> i \<and> i < int (length pl))"
  then show "remove_from_playlist pn i e db = (Error Invalid_song_index, e, db)"
    by (auto simp: remove_from_playlist_def)
next
  assume a: "playlists e pn = Some pl \<and> pn \<noteq> ''Library'' \<and> 0 \<le> i \<and> i < int (length pl)
        \<and> \<not> unavailable db \<and> bound_in_step e"
  then have h: "playlists e pn = Some pl" "pn \<noteq> ''Library''" "0 \<le> i" "i < int (length pl)"
    "\<not> unavailable db" "bound_in_step e"
    by simp_all
  note ok = remove_from_playlist_ok [OF h]
  have stored: "stored_as db pn pl \<Longrightarrow>
      stored_as (snd (snd (remove_from_playlist pn i e db)))
        pn (take (nat i) pl @ drop (Suc (nat i)) pl)"
  proof -
    assume st: "stored_as db pn pl"
    then obtain pid where pid: "select_playlist_id db pn = Some pid"
      by (auto simp: stored_as_def split: option.splits)
    show ?thesis
      using stored_as_after_remove [OF st h(3,4) pid] ok(6) pid by simp
  qed
  have nth: "\<forall>k. k < length (take (nat i) pl @ drop (Suc (nat i)) pl) \<longrightarrow>
               (take (nat i) pl @ drop (Suc (nat i)) pl) ! k
                 = (if k < nat i then pl ! k else pl ! Suc k)"
    using nth_without [of _ "nat i" pl] by blast
  have len: "length (take (nat i) pl @ drop (Suc (nat i)) pl) + 1 = length pl"
    using h(3,4) by simp
  show "let res = remove_from_playlist pn i e db; e' = fst (snd res); db' = snd (snd res);
             pl' = take (nat i) pl @ drop (Suc (nat i)) pl
         in fst res = Song_removed_from_playlist pn (pl ! nat i)
          \<and> playlists e' = (playlists e)(pn \<mapsto> pl')
          \<and> length pl' + 1 = length pl
          \<and> (\<forall>k. k < length pl' \<longrightarrow> pl' ! k = (if k < nat i then pl ! k else pl ! Suc k))
          \<and> current_playlist_name e' = current_playlist_name e
          \<and> (current_playlist_name e = Some pn \<longrightarrow>
                current_playlist e'
                  = take (nat i) (current_playlist e) @ drop (Suc (nat i)) (current_playlist e)
              \<and> playlist_index e'
                  = (if i < playlist_index e then playlist_index e - 1 else playlist_index e))
          \<and> (current_playlist_name e \<noteq> Some pn \<longrightarrow>
                current_playlist e' = current_playlist e \<and> playlist_index e' = playlist_index e)
          \<and> bound_in_step e'
          \<and> (stored_as db pn pl \<longrightarrow> stored_as db' pn pl')"
    unfolding Let_def
    using ok(1-5) stored nth len remove_from_playlist_in_step [OF h]
    by (intro conjI impI) simp_all
qed

lemma db_abc_eval: "db_abc = \<lparr>unavailable = False, foreign_keys = False, music = [], music_seq = 0,
    playlists_tbl = [\<lparr>playlists_id = 1, playlists_name = ''P''\<rparr>],
    playlists_seq = 1,
    playlist_songs =
      [\<lparr>ps_id = 1, ps_playlist_id = 1, ps_song_data = song_a, ps_position = 0\<rparr>,
       \<lparr>ps_id = 2, ps_playlist_id = 1, ps_song_data = song_b, ps_position = 1\<rparr>,
       \<lparr>ps_id = 3, ps_playlist_id = 1, ps_song_data = song_c, ps_position = 2\<rparr>],
    playlist_songs_seq = 3\<rparr>"
  by (simp add: db_abc_def create_playlist_def engine0_def init_engine_def empty_db_def Let_def
      load_saved_playlists_def load_library_def)

theorem remove_from_playlist_renumbers_witness:
  "playlists playing_abc ''P'' = Some [song_a, song_b, song_c]
   \<and> bound_in_step playing_abc \<and> \<not> unavailable db_abc
   \<and> stored_as db_abc ''P'' [song_a, song_b, song_c]
   \<and> fst (remove_from_playlist ''P'' 0 playing_abc db_abc)
       = Song_removed_from_playlist ''P'' song_a
   \<and> playlists (fst (snd (remove_from_playlist ''P'' 0 playing_abc db_abc))) ''P''
       = Some [song_b, song_c]
   \<and> current_playlist (fst (snd (remove_from_playlist ''P'' 0 playing_abc db_abc)))
       = [song_b, song_c]
   \<and> playlist_index (fst (snd (remove_from_playlist ''P'' 0 playing_abc db_abc))) = 1
   \<and> stored_as (snd (snd (remove_from_playlist ''P'' 0 playing_abc db_abc))) ''P''
       [song_b, song_c]
   \<and> map (\<lambda>r. (ps_position r, ps_song_data r))
       (playlist_songs (snd (snd (remove_from_playlist ''P'' 0 playing_abc db_abc))))
       = [(0, song_b), (1, song_c)]
   \<and> remove_from_playlist ''P'' 3 playing_abc db_abc
       = (Error Invalid_song_index, playing_abc, db_abc)
   \<and> remove_from_playlist ''Q'' 0 playing_abc db_abc
       = (Error (Playlist_not_found ''Q''), playing_abc, db_abc)
   \<and> remove_from_playlist ''Library'' 0 playing_abc db_abc
       = (Error Cannot_modify_Library, playing_abc, db_abc)"
proof -
  have p: "playlists playing_abc ''P'' = Some [song_a, song_b, song_c]"
    "playlists playing_abc ''Q'' = None" "playlists playing_abc ''Library'' \<noteq> None"
    by (simp_all add: playing_abc_def playing_P_def engine0_def init_engine_def
        load_saved_playlists_def empty_db_def)
  have b: "bound_in_step playing_abc"
    by (simp add: bound_in_step_def playing_abc_def playing_P_def engine0_def init_engine_def)
  have i: "playlist_index playing_abc = 2" "current_playlist_name playing_abc = Some ''P''"
    "current_playlist playing_abc = [song_a, song_b, song_c]"
    by (simp_all add: playing_abc_def playing_P_def)
  have u: "\<not> unavailable db_abc" by (simp add: db_abc_eval)
  have s: "stored_as db_abc ''P'' [song_a, song_b, song_c]"
    by (simp add: stored_as_def select_playlist_id_def rows_of_def numbered_def db_abc_eval)
  have d: "snd (snd (remove_from_playlist ''P'' 0 playing_abc db_abc))
            = db_abc\<lparr>playlist_songs := close_gap 1 0 (delete_at_position 1 0 (playlist_songs db_abc))\<rparr>"
    using p(1) i u by (simp add: remove_from_playlist_def Let_def py_pop_def select_playlist_id_def db_abc_eval)
  have rows: "map (\<lambda>r. (ps_position r, ps_song_data r))
       (playlist_songs (snd (snd (remove_from_playlist ''P'' 0 playing_abc db_abc))))
       = [(0, song_b), (1, song_c)]"
    unfolding d by (simp add: db_abc_eval close_gap_def delete_at_position_def)
  show ?thesis
    using remove_from_playlist_renumbers [of playing_abc "''P''" 0 db_abc "[song_a, song_b, song_c]"]
      remove_from_playlist_renumbers [of playing_abc "''P''" 3 db_abc "[song_a, song_b, song_c]"]
      remove_from_playlist_renumbers [of playing_abc "''Q''" 0 db_abc "[]"]
      p b i u s rows
    by (simp add: Let_def)
qed

section \<open>Reordering a playlist\<close>

lemma moved_mset:
  assumes "f < length xs"
  shows "mset (moved f t xs) = mset xs"
proof -
  let ?X = "take f xs @ drop (Suc f) xs"
  have 1: "mset (take t ?X) + mset (drop t ?X) = mset ?X"
    by (metis append_take_drop_id mset_append)
  have "mset (take f xs @ xs ! f # drop (Suc f) xs) = mset xs"
    using assms by (simp only: id_take_nth_drop [symmetric])
  then have 2: "add_mset (xs ! f) (mset ?X) = mset xs" by simp
  have "mset (moved f t xs) = add_mset (xs ! f) (mset (take t ?X) + mset (drop t ?X))"
    by (simp add: moved_def)
  then show ?thesis by (simp only: 1 2)
qed

lemma moved_length: "f < length xs \<Longrightarrow> length (moved f t xs) = length xs"
  using moved_mset [of f xs t] by (metis size_mset)

lemma moved_nth_target:
  "f < length xs \<Longrightarrow> t < length xs \<Longrightarrow> moved f t xs ! t = xs ! f"
  by (simp add: moved_def nth_append min_def)

lemma split_at_length:
  assumes "length ys = t"
  shows "take t (ys @ a # zs) = ys" and "drop (Suc t) (ys @ a # zs) = zs"
  using assms by simp_all

lemma moved_back:
  assumes "f < length xs" "t < length xs"
  shows "moved t f (moved f t xs) = xs"
proof -
  let ?X = "take f xs @ drop (Suc f) xs"
  have l: "length (take t ?X) = t" using assms by simp
  have a: "take t (moved f t xs) = take t ?X"
    unfolding moved_def using l by (rule split_at_length(1))
  have b: "drop (Suc t) (moved f t xs) = drop t ?X"
    unfolding moved_def using l by (rule split_at_length(2))
  have c: "take t (moved f t xs) @ drop (Suc t) (moved f t xs) = ?X"
    by (simp only: a b append_take_drop_id)
  have lf: "length (take f xs) = f" using assms by simp
  have d: "take f ?X = take f xs" using lf by simp
  have e: "drop f ?X = drop (Suc f) xs" using lf by simp
  have "moved t f (moved f t xs) = take f ?X @ moved f t xs ! t # drop f ?X"
    unfolding moved_def [of t f] by (simp only: c)
  also have "\<dots> = take f xs @ xs ! f # drop (Suc f) xs"
    using moved_nth_target [OF assms] by (simp only: d e)
  also have "\<dots> = xs" using assms(1) by (simp only: id_take_nth_drop [symmetric])
  finally show ?thesis .
qed

lemma nth_beyond_gap:
  "k < length xs - 1 \<Longrightarrow> f < length xs \<Longrightarrow>
     (take f xs @ drop (Suc f) xs) ! k = (if k < f then xs ! k else xs ! Suc k)"
  by (simp add: nth_append min_def)

lemma nth_around_insert:
  "t \<le> length ys \<Longrightarrow> j \<le> length ys \<Longrightarrow>
     (take t ys @ a # drop t ys) ! j
       = (if j < t then ys ! j else if j = t then a else ys ! (j - 1))"
  by (cases "j < t"; cases "j = t") (simp_all add: nth_append min_def nth_Cons')

lemma moved_nth:
  assumes "f < length xs" "t < length xs" "k < length xs"
  shows "moved f t xs !
           (if k = f then t else if f < k \<and> k \<le> t then k - 1
            else if t \<le> k \<and> k < f then k + 1 else k) = xs ! k"
proof -
  let ?X = "take f xs @ drop (Suc f) xs"
  have lx: "length ?X = length xs - 1" using assms by simp
  have t: "t \<le> length ?X" using assms lx by simp
  have X: "\<And>i. i < length xs - 1 \<Longrightarrow> ?X ! i = (if i < f then xs ! i else xs ! Suc i)"
    using nth_beyond_gap assms(1) by blast
  have M: "\<And>j. j \<le> length ?X \<Longrightarrow>
             moved f t xs ! j = (if j < t then ?X ! j else if j = t then xs ! f else ?X ! (j - 1))"
    unfolding moved_def using t by (rule nth_around_insert)
  consider (same) "k = f" | (down) "f < k" "k \<le> t" | (up) "t \<le> k" "k < f"
    | (below) "k < f" "k < t" | (above) "f < k" "t < k"
    by linarith
  then show ?thesis
  proof cases
    case same
    then show ?thesis using M [of t] t by simp
  next
    case down
    then have a: "k - 1 < t" "\<not> k - 1 < f" "Suc (k - 1) = k" "k - 1 < length xs - 1"
      "k - 1 \<le> length ?X" "k \<noteq> f"
      using assms lx by simp_all
    have "moved f t xs ! (k - 1) = ?X ! (k - 1)" using M [OF a(5)] a(1) by simp
    also have "\<dots> = xs ! k" using X [OF a(4)] a(2,3) by simp
    finally show ?thesis using down a(6) by auto
  next
    case up
    then have a: "\<not> k + 1 < t" "k + 1 \<noteq> t" "k < f" "k < length xs - 1"
      "k + 1 \<le> length ?X" "k \<noteq> f" "\<not> (f < k \<and> k \<le> t)"
      using assms lx by simp_all
    have "moved f t xs ! (k + 1) = ?X ! k" using M [OF a(5)] a(1,2) by simp
    also have "\<dots> = xs ! k" using X [OF a(4)] a(3) by simp
    finally show ?thesis using up a(6,7) by auto
  next
    case below
    then have a: "k < length xs - 1" "k \<le> length ?X" "k \<noteq> f" "\<not> (f < k \<and> k \<le> t)"
      "\<not> (t \<le> k \<and> k < f)"
      using assms lx by simp_all
    have "moved f t xs ! k = ?X ! k" using M [OF a(2)] below(2) by simp
    also have "\<dots> = xs ! k" using X [OF a(1)] below(1) by simp
    finally show ?thesis using a(3,4,5) by auto
  next
    case above
    then have a: "k - 1 < length xs - 1" "k \<le> length ?X" "k \<noteq> f" "\<not> (f < k \<and> k \<le> t)"
      "\<not> (t \<le> k \<and> k < f)" "\<not> k < t" "k \<noteq> t" "\<not> k - 1 < f" "Suc (k - 1) = k"
      using assms lx by simp_all
    have "moved f t xs ! k = ?X ! (k - 1)" using M [OF a(2)] a(6,7) by simp
    also have "\<dots> = xs ! k" using X [OF a(1)] a(8,9) by simp
    finally show ?thesis using a(3,4,5) by auto
  qed
qed

lemma insert_songs_frame:
  "unavailable (insert_songs pid i sgs db) = unavailable db"
  "playlists_tbl (insert_songs pid i sgs db) = playlists_tbl db"
  "music (insert_songs pid i sgs db) = music db"
  by (induction sgs arbitrary: i db) simp_all

lemma select_playlist_id_insert_songs:
  "select_playlist_id (insert_songs pid i sgs db) pn = select_playlist_id db pn"
  by (simp add: select_playlist_id_def insert_songs_frame)

lemma rows_of_insert_songs:
  "rows_of (insert_songs pid i sgs db) pid = rows_of db pid @ enumerate_from i sgs"
  by (induction sgs arbitrary: i db) (simp_all add: rows_of_def)

lemma rows_of_cleared:
  "rows_of (db\<lparr>playlist_songs := filter (\<lambda>r. ps_playlist_id r \<noteq> pid) (playlist_songs db)\<rparr>) pid
     = []"
  by (simp add: rows_of_def filter_empty_conv)

lemma stored_as_after_rewrite:
  assumes "select_playlist_id db pn = Some pid"
  shows "stored_as
           (insert_songs pid 0 sgs
              (db\<lparr>playlist_songs := filter (\<lambda>r. ps_playlist_id r \<noteq> pid) (playlist_songs db)\<rparr>))
           pn sgs"
proof -
  have "select_playlist_id
          (insert_songs pid 0 sgs
             (db\<lparr>playlist_songs := filter (\<lambda>r. ps_playlist_id r \<noteq> pid) (playlist_songs db)\<rparr>))
          pn = Some pid"
    using assms by (simp add: select_playlist_id_insert_songs) (simp add: select_playlist_id_def)
  then show ?thesis
    by (simp add: stored_as_def rows_of_insert_songs rows_of_cleared numbered_def)
qed

lemma reorder_playlist_ok:
  assumes "playlists e pn = Some pl" "pn \<noteq> ''Library''"
    and "0 \<le> f" "f < int (length pl)" "0 \<le> t" "t < int (length pl)"
    and "\<not> unavailable db" "bound_in_step e"
  shows "fst (reorder_playlist pn f t e db) = Playlist_reordered pn"
    and "playlists (fst (snd (reorder_playlist pn f t e db)))
           = (playlists e)(pn \<mapsto> moved (nat f) (nat t) pl)"
    and "current_playlist_name (fst (snd (reorder_playlist pn f t e db)))
           = current_playlist_name e"
    and "current_playlist_name e = Some pn \<Longrightarrow>
           current_playlist (fst (snd (reorder_playlist pn f t e db)))
             = moved (nat f) (nat t) (current_playlist e)
         \<and> playlist_index (fst (snd (reorder_playlist pn f t e db)))
             = (if playlist_index e = f then t
                else if f < playlist_index e \<and> playlist_index e \<le> t then playlist_index e - 1
                else if t \<le> playlist_index e \<and> playlist_index e < f then playlist_index e + 1
                else playlist_index e)"
    and "current_playlist_name e \<noteq> Some pn \<Longrightarrow>
           current_playlist (fst (snd (reorder_playlist pn f t e db))) = current_playlist e
         \<and> playlist_index (fst (snd (reorder_playlist pn f t e db))) = playlist_index e"
    and "snd (snd (reorder_playlist pn f t e db))
           = (case select_playlist_id db pn of
                None \<Rightarrow> db
              | Some pid \<Rightarrow>
                  insert_songs pid 0 (moved (nat f) (nat t) pl)
                    (db\<lparr>playlist_songs :=
                          filter (\<lambda>r. ps_playlist_id r \<noteq> pid) (playlist_songs db)\<rparr>))"
proof -
  have ins: "\<And>xs :: song list. int (length xs) = int (length pl) \<Longrightarrow>
          py_insert (take (nat f) xs @ drop (Suc (nat f)) xs) t (xs ! nat f) = moved (nat f) (nat t) xs"
    using assms(3-6) by (subst py_insert_valid) (simp_all add: moved_def)
  have pl1: "py_insert (take (nat f) pl @ drop (Suc (nat f)) pl) t (pl ! nat f)
               = moved (nat f) (nat t) pl"
    by (rule ins) simp
  have len: "current_playlist_name e = Some pn \<Longrightarrow> length (current_playlist e) = length pl"
    using assms(1,8) by (simp add: bound_in_step_def)
  have pop: "current_playlist_name e = Some pn \<Longrightarrow>
               py_pop (current_playlist e) f
                 = Some (current_playlist e ! nat f,
                         take (nat f) (current_playlist e) @ drop (Suc (nat f)) (current_playlist e))"
    using len assms(3,4) by (simp add: py_pop_valid)
  have cp1: "current_playlist_name e = Some pn \<Longrightarrow>
               py_insert (take (nat f) (current_playlist e) @ drop (Suc (nat f)) (current_playlist e))
                 t (current_playlist e ! nat f) = moved (nat f) (nat t) (current_playlist e)"
    using len by (intro ins) simp
  show "fst (reorder_playlist pn f t e db) = Playlist_reordered pn"
    using assms(1-7) pop by (simp add: reorder_playlist_def Let_def)
  show "playlists (fst (snd (reorder_playlist pn f t e db)))
           = (playlists e)(pn \<mapsto> moved (nat f) (nat t) pl)"
    using assms(1-7) pop pl1 by (simp add: reorder_playlist_def Let_def)
  show "current_playlist_name (fst (snd (reorder_playlist pn f t e db)))
           = current_playlist_name e"
    using assms(1-7) pop by (simp add: reorder_playlist_def Let_def)
  show "current_playlist_name e = Some pn \<Longrightarrow>
           current_playlist (fst (snd (reorder_playlist pn f t e db)))
             = moved (nat f) (nat t) (current_playlist e)
         \<and> playlist_index (fst (snd (reorder_playlist pn f t e db)))
             = (if playlist_index e = f then t
                else if f < playlist_index e \<and> playlist_index e \<le> t then playlist_index e - 1
                else if t \<le> playlist_index e \<and> playlist_index e < f then playlist_index e + 1
                else playlist_index e)"
    using assms(1-7) pop cp1 by (simp add: reorder_playlist_def Let_def)
  show "current_playlist_name e \<noteq> Some pn \<Longrightarrow>
           current_playlist (fst (snd (reorder_playlist pn f t e db))) = current_playlist e
         \<and> playlist_index (fst (snd (reorder_playlist pn f t e db))) = playlist_index e"
    using assms(1-7) by (simp add: reorder_playlist_def Let_def)
  show "snd (snd (reorder_playlist pn f t e db))
           = (case select_playlist_id db pn of
                None \<Rightarrow> db
              | Some pid \<Rightarrow>
                  insert_songs pid 0 (moved (nat f) (nat t) pl)
                    (db\<lparr>playlist_songs :=
                          filter (\<lambda>r. ps_playlist_id r \<noteq> pid) (playlist_songs db)\<rparr>))"
    using assms(1-7) pop pl1
    by (cases "current_playlist_name e = Some pn") (simp_all add: reorder_playlist_def Let_def)
qed

lemma reorder_playlist_in_step:
  assumes "playlists e pn = Some pl" "pn \<noteq> ''Library''"
    and "0 \<le> f" "f < int (length pl)" "0 \<le> t" "t < int (length pl)"
    and "\<not> unavailable db" "bound_in_step e"
  shows "bound_in_step (fst (snd (reorder_playlist pn f t e db)))"
proof (cases "current_playlist_name e = Some pn")
  case True
  have "length (current_playlist e) = length pl"
    using True assms(1,8) by (simp add: bound_in_step_def)
  then show ?thesis
    using True assms(3-6) reorder_playlist_ok(2,3,4)[OF assms]
    by (simp add: bound_in_step_def moved_length)
next
  case False
  then show ?thesis
    using assms(8) reorder_playlist_ok(2,3,5)[OF assms]
    by (auto simp: bound_in_step_def split: option.splits)
qed

lemma reorder_playlist_available:
  assumes "playlists e pn = Some pl" "pn \<noteq> ''Library''"
    and "0 \<le> f" "f < int (length pl)" "0 \<le> t" "t < int (length pl)"
    and "\<not> unavailable db" "bound_in_step e"
  shows "\<not> unavailable (snd (snd (reorder_playlist pn f t e db)))"
  using assms(7) reorder_playlist_ok(6)[OF assms]
  by (simp add: insert_songs_frame split: option.splits)

lemma moved_index_back:
  fixes f t k k' :: int
  assumes "k' = (if k = f then t else if f < k \<and> k \<le> t then k - 1
                 else if t \<le> k \<and> k < f then k + 1 else k)"
  shows "(if k' = t then f else if t < k' \<and> k' \<le> f then k' - 1
          else if f \<le> k' \<and> k' < t then k' + 1 else k') = k"
  using assms by (auto split: if_splits)

lemma moved_nth_int:
  assumes "0 \<le> f" "f < int (length xs)" "0 \<le> t" "t < int (length xs)"
    and "0 \<le> k" "k < int (length xs)"
  shows "moved (nat f) (nat t) xs !
           nat (if k = f then t else if f < k \<and> k \<le> t then k - 1
                else if t \<le> k \<and> k < f then k + 1 else k) = xs ! nat k"
proof -
  have "nat (if k = f then t else if f < k \<and> k \<le> t then k - 1
             else if t \<le> k \<and> k < f then k + 1 else k)
        = (if nat k = nat f then nat t else if nat f < nat k \<and> nat k \<le> nat t then nat k - 1
           else if nat t \<le> nat k \<and> nat k < nat f then nat k + 1 else nat k)"
    using assms by (auto simp: nat_diff_distrib nat_add_distrib)
  moreover have "nat f < length xs" "nat t < length xs" "nat k < length xs"
    using assms by simp_all
  ultimately show ?thesis
    by (simp only: moved_nth)
qed

text \<open>
  Claim C6. \<open>reorder_playlist\<close> answers \<open>Playlist not found\<close>, \<open>Cannot reorder Library
  playlist\<close> or \<open>Invalid indices\<close> and changes nothing when the playlist is unknown, is the
  Library, or an index is outside \<open>[0, len)\<close>. For an existing playlist other than the
  Library, indices \<open>f\<close> and \<open>t\<close> in range, a store that answers and a bound copy in step with
  the stored playlist, the stored playlist becomes the list with entry \<open>f\<close> taken out and put
  back at \<open>t\<close>: the same multiset of songs, the same length, the moved song at \<open>t\<close>.
  Reordering with \<open>t\<close> and \<open>f\<close> swapped afterwards gives back the original playlist map, bound
  copy and current index. When the playlist is the bound one, the bound copy is moved the
  same way and the current index \<open>k\<close> becomes \<open>t\<close> if \<open>k = f\<close>, \<open>k - 1\<close> if \<open>f < k \<le> t\<close>,
  \<open>k + 1\<close> if \<open>t \<le> k < f\<close>, and stays otherwise, so that an index in range still points at
  the same song; when it is not bound, copy and index are untouched. The copy stays in step,
  and the rewritten membership rows mirror the new list with positions \<open>0, ..., len - 1\<close>.
\<close>

theorem reorder_playlist_permutes:
  "(playlists e pn = None \<longrightarrow>
      reorder_playlist pn f t e db = (Error (Playlist_not_found pn), e, db))
   \<and> (playlists e ''Library'' \<noteq> None \<longrightarrow>
        reorder_playlist ''Library'' f t e db = (Error Cannot_reorder_Library, e, db))
   \<and> (playlists e pn = Some pl \<and> pn \<noteq> ''Library''
        \<and> \<not> (0 \<le> f \<and> f < int (length pl) \<and> 0 \<le> t \<and> t < int (length pl)) \<longrightarrow>
        reorder_playlist pn f t e db = (Error Invalid_indices, e, db))
   \<and> (playlists e pn = Some pl \<and> pn \<noteq> ''Library''
        \<and> 0 \<le> f \<and> f < int (length pl) \<and> 0 \<le> t \<and> t < int (length pl)
        \<and> \<not> unavailable db \<and> bound_in_step e \<longrightarrow>
        (let res = reorder_playlist pn f t e db; e1 = fst (snd res); db1 = snd (snd res);
             pl1 = moved (nat f) (nat t) pl;
             back = reorder_playlist pn t f e1 db1; e2 = fst (snd back);
             k = playlist_index e
         in fst res = Playlist_reordered pn
          \<and> playlists e1 = (playlists e)(pn \<mapsto> pl1)
          \<and> mset pl1 = mset pl
          \<and> length pl1 = length pl
          \<and> pl1 ! nat t = pl ! nat f
          \<and> fst back = Playlist_reordered pn
          \<and> playlists e2 = playlists e
          \<and> current_playlist e2 = current_playlist e
          \<and> playlist_index e2 = playlist_index e
          \<and> current_playlist_name e1 = current_playlist_name e
          \<and> (current_playlist_name e = Some pn \<longrightarrow>
                current_playlist e1 = moved (nat f) (nat t) (current_playlist e)
              \<and> mset (current_playlist e1) = mset (current_playlist e)
              \<and> playlist_index e1
                  = (if k = f then t
                     else if f < k \<and> k \<le> t then k - 1
                     else if t \<le> k \<and> k < f then k + 1
                     else k)
              \<and> (0 \<le> k \<and> k < int (length pl) \<longrightarrow>
                    current_playlist e1 ! nat (playlist_index e1) = current_playlist e ! nat k))
          \<and> (current_playlist_name e \<noteq> Some pn \<longrightarrow>
                current_playlist e1 = current_playlist e \<and> playlist_index e1 = playlist_index e)
          \<and> bound_in_step e1
          \<and> (select_playlist_id db pn \<noteq> None \<longrightarrow> stored_as db1 pn pl1)))"
proof (intro conjI impI)
  assume "playlists e pn = None"
  then show "reorder_playlist pn f t e db = (Error (Playlist_not_found pn), e, db)"
    by (simp add: reorder_playlist_def)
next
  assume "playlists e ''Library'' \<noteq> None"
  then show "reorder_playlist ''Library'' f t e db = (Error Cannot_reorder_Library, e, db)"
    by (auto simp: reorder_playlist_def)
next
  assume "playlists e pn = Some pl \<and> pn \<noteq> ''Library''
        \<and> \<not> (0 \<le> f \<and> f < int (length pl) \<and> 0 \<le> t \<and> t < int (length pl))"
  then show "reorder_playlist pn f t e db = (Error Invalid_indices, e, db)"
    by (auto simp: reorder_playlist_def)
next
  assume a: "playlists e pn = Some pl \<and> pn \<noteq> ''Library''
        \<and> 0 \<le> f \<and> f < int (length pl) \<and> 0 \<le> t \<and> t < int (length pl)
        \<and> \<not> unavailable db \<and> bound_in_step e"
  then have h: "playlists e pn = Some pl" "pn \<noteq> ''Library''"
    "0 \<le> f" "f < int (length pl)" "0 \<le> t" "t < int (length pl)"
    "\<not> unavailable db" "bound_in_step e"
    by simp_all
  define e1 where "e1 = fst (snd (reorder_playlist pn f t e db))"
  define db1 where "db1 = snd (snd (reorder_playlist pn f t e db))"
  define pl1 where "pl1 = moved (nat f) (nat t) pl"
  define e2 where "e2 = fst (snd (reorder_playlist pn t f e1 db1))"
  note ok = reorder_playlist_ok [OF h, folded e1_def db1_def pl1_def]
  have nf: "nat f < length pl" and nt: "nat t < length pl" using h(3-6) by simp_all
  have l1: "length pl1 = length pl" unfolding pl1_def using nf by (rule moved_length)
  have m1: "mset pl1 = mset pl" unfolding pl1_def using nf by (rule moved_mset)
  have n1: "pl1 ! nat t = pl ! nat f" unfolding pl1_def using nf nt by (rule moved_nth_target)
  have step1: "bound_in_step e1"
    unfolding e1_def using h by (rule reorder_playlist_in_step)
  have av1: "\<not> unavailable db1"
    unfolding db1_def using h by (rule reorder_playlist_available)
  have h2: "playlists e1 pn = Some pl1" "pn \<noteq> ''Library''"
    "0 \<le> t" "t < int (length pl1)" "0 \<le> f" "f < int (length pl1)"
    "\<not> unavailable db1" "bound_in_step e1"
    using ok(2) h l1 step1 av1 by simp_all
  note ok2 = reorder_playlist_ok [OF h2, folded e2_def]
  have back_pl: "moved (nat t) (nat f) pl1 = pl"
    unfolding pl1_def using nf nt by (rule moved_back)
  have map_back: "playlists e2 = playlists e"
    using ok2(2) ok(2) back_pl h(1) by (simp add: map_upd_triv)
  have cplen: "current_playlist_name e = Some pn \<Longrightarrow> length (current_playlist e) = length pl"
    using h(1,8) by (simp add: bound_in_step_def)
  have cp_back: "current_playlist e2 = current_playlist e"
  proof (cases "current_playlist_name e = Some pn")
    case True
    then have "moved (nat t) (nat f) (moved (nat f) (nat t) (current_playlist e))
                 = current_playlist e"
      using cplen nf nt by (simp add: moved_back)
    then show ?thesis using True ok(3,4) ok2(4) by simp
  next
    case False
    then show ?thesis using ok(3,5) ok2(5) by simp
  qed
  have idx_back: "playlist_index e2 = playlist_index e"
  proof (cases "current_playlist_name e = Some pn")
    case True
    then have k1: "playlist_index e1
                     = (if playlist_index e = f then t
                        else if f < playlist_index e \<and> playlist_index e \<le> t
                          then playlist_index e - 1
                        else if t \<le> playlist_index e \<and> playlist_index e < f
                          then playlist_index e + 1
                        else playlist_index e)"
      using ok(4) by simp
    have "current_playlist_name e1 = Some pn" using True ok(3) by simp
    then have "playlist_index e2
                 = (if playlist_index e1 = t then f
                    else if t < playlist_index e1 \<and> playlist_index e1 \<le> f
                      then playlist_index e1 - 1
                    else if f \<le> playlist_index e1 \<and> playlist_index e1 < t
                      then playlist_index e1 + 1
                    else playlist_index e1)"
      using ok2(4) by simp
    then show ?thesis
      using moved_index_back [OF k1] by simp
  next
    case False
    then show ?thesis using ok(3,5) ok2(5) by simp
  qed
  have track: "current_playlist_name e = Some pn \<Longrightarrow>
                 0 \<le> playlist_index e \<and> playlist_index e < int (length pl) \<Longrightarrow>
                 current_playlist e1 ! nat (playlist_index e1)
                   = current_playlist e ! nat (playlist_index e)"
    using ok(4) cplen h(3-6)
      moved_nth_int [of f "current_playlist e" t "playlist_index e"]
    by simp
  have cpm: "current_playlist_name e = Some pn \<Longrightarrow>
               mset (current_playlist e1) = mset (current_playlist e)"
    using ok(4) cplen nf by (simp add: moved_mset)
  have stored: "select_playlist_id db pn \<noteq> None \<Longrightarrow> stored_as db1 pn pl1"
    using ok(6) stored_as_after_rewrite [of db pn _ pl1] by auto
  show "let res = reorder_playlist pn f t e db; e1 = fst (snd res); db1 = snd (snd res);
             pl1 = moved (nat f) (nat t) pl;
             back = reorder_playlist pn t f e1 db1; e2 = fst (snd back);
             k = playlist_index e
         in fst res = Playlist_reordered pn
          \<and> playlists e1 = (playlists e)(pn \<mapsto> pl1)
          \<and> mset pl1 = mset pl
          \<and> length pl1 = length pl
          \<and> pl1 ! nat t = pl ! nat f
          \<and> fst back = Playlist_reordered pn
          \<and> playlists e2 = playlists e
          \<and> current_playlist e2 = current_playlist e
          \<and> playlist_index e2 = playlist_index e
          \<and> current_playlist_name e1 = current_playlist_name e
          \<and> (current_playlist_name e = Some pn \<longrightarrow>
                current_playlist e1 = moved (nat f) (nat t) (current_playlist e)
              \<and> mset (current_playlist e1) = mset (current_playlist e)
              \<and> playlist_index e1
                  = (if k = f then t
                     else if f < k \<and> k \<le> t then k - 1
                     else if t \<le> k \<and> k < f then k + 1
                     else k)
              \<and> (0 \<le> k \<and> k < int (length pl) \<longrightarrow>
                    current_playlist e1 ! nat (playlist_index e1) = current_playlist e ! nat k))
          \<and> (current_playlist_name e \<noteq> Some pn \<longrightarrow>
                current_playlist e1 = current_playlist e \<and> playlist_index e1 = playlist_index e)
          \<and> bound_in_step e1
          \<and> (select_playlist_id db pn \<noteq> None \<longrightarrow> stored_as db1 pn pl1)"
    unfolding Let_def e1_def [symmetric] db1_def [symmetric] pl1_def [symmetric]
      e2_def [symmetric]
    using ok(1-5) ok2(1) l1 m1 n1 map_back cp_back idx_back track cpm step1 stored
    by (intro conjI impI) simp_all
qed

text \<open>On \<open>P = [a, b, c]\<close> bound at index 2: moving entry 1 to 0 gives \<open>[b, a, c]\<close> and the
  index stays; moving entry 2 to 0 gives \<open>[c, a, b]\<close> and the index follows its song to 0.\<close>

theorem reorder_playlist_permutes_witness:
  "playlists playing_abc ''P'' = Some [song_a, song_b, song_c]
   \<and> bound_in_step playing_abc \<and> \<not> unavailable db_abc
   \<and> current_playlist_name playing_abc = Some ''P'' \<and> playlist_index playing_abc = 2
   \<and> fst (reorder_playlist ''P'' 1 0 playing_abc db_abc) = Playlist_reordered ''P''
   \<and> playlists (fst (snd (reorder_playlist ''P'' 1 0 playing_abc db_abc))) ''P''
       = Some [song_b, song_a, song_c]
   \<and> playlist_index (fst (snd (reorder_playlist ''P'' 1 0 playing_abc db_abc))) = 2
   \<and> stored_as (snd (snd (reorder_playlist ''P'' 1 0 playing_abc db_abc))) ''P''
       [song_b, song_a, song_c]
   \<and> playlists (fst (snd (reorder_playlist ''P'' 0 1
        (fst (snd (reorder_playlist ''P'' 1 0 playing_abc db_abc)))
        (snd (snd (reorder_playlist ''P'' 1 0 playing_abc db_abc)))))) ''P''
       = Some [song_a, song_b, song_c]
   \<and> current_playlist (fst (snd (reorder_playlist ''P'' 2 0 playing_abc db_abc)))
       = [song_c, song_a, song_b]
   \<and> playlist_index (fst (snd (reorder_playlist ''P'' 2 0 playing_abc db_abc))) = 0
   \<and> reorder_playlist ''P'' 0 3 playing_abc db_abc
       = (Error Invalid_indices, playing_abc, db_abc)
   \<and> reorder_playlist ''Q'' 0 1 playing_abc db_abc
       = (Error (Playlist_not_found ''Q''), playing_abc, db_abc)
   \<and> reorder_playlist ''Library'' 0 1 playing_abc db_abc
       = (Error Cannot_reorder_Library, playing_abc, db_abc)"
proof -
  have p: "playlists playing_abc ''P'' = Some [song_a, song_b, song_c]"
    "playlists playing_abc ''Q'' = None" "playlists playing_abc ''Library'' \<noteq> None"
    by (simp_all add: playing_abc_def playing_P_def engine0_def init_engine_def
        load_saved_playlists_def empty_db_def)
  have b: "bound_in_step playing_abc"
    by (simp add: bound_in_step_def playing_abc_def playing_P_def engine0_def init_engine_def)
  have i: "playlist_index playing_abc = 2" "current_playlist_name playing_abc = Some ''P''"
    "current_playlist playing_abc = [song_a, song_b, song_c]"
    by (simp_all add: playing_abc_def playing_P_def)
  have u: "\<not> unavailable db_abc" by (simp add: db_abc_eval)
  have s: "select_playlist_id db_abc ''P'' \<noteq> None"
    by (simp add: select_playlist_id_def db_abc_eval)
  have m: "moved (Suc 0) 0 [song_a, song_b, song_c] = [song_b, song_a, song_c]"
    "moved 2 0 [song_a, song_b, song_c] = [song_c, song_a, song_b]"
    by (simp_all add: moved_def)
  show ?thesis
    using reorder_playlist_permutes [of playing_abc "''P''" 1 0 db_abc "[song_a, song_b, song_c]"]
      reorder_playlist_permutes [of playing_abc "''P''" 2 0 db_abc "[song_a, song_b, song_c]"]
      reorder_playlist_permutes [of playing_abc "''P''" 0 3 db_abc "[song_a, song_b, song_c]"]
      reorder_playlist_permutes [of playing_abc "''Q''" 0 1 db_abc "[]"]
      p b i u s m
    by (simp add: Let_def)
qed

text \<open>When the store fails during \<open>reorder_playlist\<close> with indices in range, the error comes back with the stored list already
  reordered.\<close>

lemma reorder_playlist_storage_failure:
  assumes "playlists e pn = Some pl" "pn \<noteq> ''Library''"
    and "0 \<le> f" "f < int (length pl)" "0 \<le> t" "t < int (length pl)"
    and "unavailable db"
  shows "reorder_playlist pn f t e db
           = (Error (Failed_to_reorder_playlist DatabaseError),
              e\<lparr>playlists := (playlists e)(pn \<mapsto> moved (nat f) (nat t) pl)\<rparr>, db)"
proof -
  have "py_insert (take (nat f) pl @ drop (Suc (nat f)) pl) t (pl ! nat f)
          = moved (nat f) (nat t) pl"
    using assms(3-6) by (subst py_insert_valid) (simp_all add: moved_def)
  then show ?thesis
    using assms by (simp add: reorder_playlist_def Let_def)
qed

section \<open>The bound copy stays in step\<close>

text \<open>The hypothesis of the two playlist theorems holds at start-up and is kept by every
  operation modelled here, \<open>random.shuffle\<close> being a permutation.\<close>

lemma bound_in_step_iff:
  "bound_in_step e \<longleftrightarrow>
     (\<forall>pn. current_playlist_name e = Some pn \<longrightarrow>
        (\<exists>pl. playlists e pn = Some pl \<and> length (current_playlist e) = length pl))"
  by (auto simp: bound_in_step_def split: option.splits)

lemma bound_in_step_cong:
  "playlists e' = playlists e \<Longrightarrow> current_playlist e' = current_playlist e \<Longrightarrow>
   current_playlist_name e' = current_playlist_name e \<Longrightarrow>
   bound_in_step e' = bound_in_step e"
  by (simp add: bound_in_step_iff)

lemma bound_in_step_unbound: "current_playlist_name e = None \<Longrightarrow> bound_in_step e"
  by (simp add: bound_in_step_def)

lemma bound_in_step_init: "bound_in_step (init_engine p db)"
  by (simp add: bound_in_step_iff init_engine_def)

lemma bound_in_step_play_file:
  "bound_in_step (snd (play_file sys db p e)) = bound_in_step e"
  by (rule bound_in_step_cong) (simp_all add: play_file_frame)

lemma bound_in_step_play_current_index:
  "bound_in_step (snd (play_current_index sys db e)) = bound_in_step e"
  by (rule bound_in_step_cong) (simp_all add: play_current_index_frame)

lemma bound_in_step_index:
  "bound_in_step (e\<lparr>playlist_index := k\<rparr>) = bound_in_step e"
  "bound_in_step (e\<lparr>queue := q\<rparr>) = bound_in_step e"
  "bound_in_step (e\<lparr>history := h\<rparr>) = bound_in_step e"
  "bound_in_step (e\<lparr>player := p\<rparr>) = bound_in_step e"
  by (simp_all add: bound_in_step_iff)

lemma bound_in_step_stop: "bound_in_step (snd (stop e))"
  by (simp add: bound_in_step_iff stop_def)

lemma bound_in_step_next_song:
  "bound_in_step e \<Longrightarrow> bound_in_step (snd (next_song sys db e))"
  by (simp add: next_song_def Let_def bound_in_step_play_file bound_in_step_play_current_index
      bound_in_step_index split: list.splits)

lemma bound_in_step_handle_song_end:
  "bound_in_step e \<Longrightarrow> bound_in_step (snd (handle_song_end sys db e))"
  by (simp add: handle_song_end_def Let_def escaped_snd bound_in_step_play_file
      bound_in_step_play_current_index bound_in_step_index bound_in_step_stop
      split: list.splits option.splits)

lemma bound_in_step_previous:
  "bound_in_step e \<Longrightarrow> bound_in_step (snd (previous sys db e))"
  by (simp add: previous_def Let_def bound_in_step_play_file bound_in_step_play_current_index
      bound_in_step_index)

lemma bound_in_step_volume:
  "bound_in_step e \<Longrightarrow> bound_in_step (snd (set_volume v e))"
  "bound_in_step e \<Longrightarrow> bound_in_step (snd (toggle_mute e))"
  by (simp_all add: set_volume_def toggle_mute_def Let_def bound_in_step_iff)

lemma bound_in_step_play_playlist:
  assumes "\<And>xs. length (shuffled xs) = length xs" "bound_in_step e"
  shows "bound_in_step (snd (play_playlist sys db shuffled pn e))"
  using assms
  by (simp add: play_playlist_def Let_def bound_in_step_play_current_index split: option.splits)
     (simp add: bound_in_step_iff)

lemma bound_in_step_create_playlist:
  "bound_in_step e \<Longrightarrow> bound_in_step (fst (snd (create_playlist pn songs e db)))"
  by (auto simp: create_playlist_def Let_def bound_in_step_iff split: option.splits)

lemma bound_in_step_delete_playlist:
  "bound_in_step e \<Longrightarrow> bound_in_step (fst (snd (delete_playlist pn e db)))"
  by (auto simp: delete_playlist_def Let_def bound_in_step_iff split: option.splits)

lemma bound_in_step_add_to_playlist:
  "bound_in_step e \<Longrightarrow> bound_in_step (fst (snd (add_to_playlist sys pn sn e db)))"
  by (auto simp: add_to_playlist_def Let_def bound_in_step_iff split: option.splits)

lemma bound_in_step_rename_playlist:
  "bound_in_step e \<Longrightarrow> bound_in_step (fst (snd (rename_playlist pn pn2 e db)))"
  by (auto simp: rename_playlist_def Let_def bound_in_step_iff split: option.splits)

lemma bound_in_step_remove_from_playlist:
  assumes "bound_in_step e"
  shows "bound_in_step (fst (snd (remove_from_playlist pn i e db)))"
proof (cases "playlists e pn")
  case None
  then show ?thesis using assms by (simp add: remove_from_playlist_def)
next
  case (Some pl)
  show ?thesis
  proof (cases "pn \<noteq> ''Library'' \<and> 0 \<le> i \<and> i < int (length pl) \<and> \<not> unavailable db")
    case True
    then show ?thesis using remove_from_playlist_in_step [of e pn pl i db] Some assms by simp
  next
    case False
    then show ?thesis using Some assms by (auto simp: remove_from_playlist_def)
  qed
qed

lemma bound_in_step_reorder_playlist:
  assumes "bound_in_step e"
  shows "bound_in_step (fst (snd (reorder_playlist pn f t e db)))"
proof (cases "playlists e pn")
  case None
  then show ?thesis using assms by (simp add: reorder_playlist_def)
next
  case (Some pl)
  show ?thesis
  proof (cases "pn \<noteq> ''Library'' \<and> 0 \<le> f \<and> f < int (length pl) \<and> 0 \<le> t \<and> t < int (length pl)")
    case False
    then show ?thesis using Some assms by (auto simp: reorder_playlist_def)
  next
    case True
    show ?thesis
    proof (cases "unavailable db")
      case False
      then show ?thesis using reorder_playlist_in_step [of e pn pl f t db] Some True assms by simp
    next
      case u: True
      from True have h: "0 \<le> f" "f < int (length pl)" "0 \<le> t" "t < int (length pl)"
        by simp_all
      have "py_insert (take (nat f) pl @ drop (Suc (nat f)) pl) t (pl ! nat f)
              = moved (nat f) (nat t) pl"
        using h by (subst py_insert_valid) (simp_all add: moved_def)
      then have "fst (snd (reorder_playlist pn f t e db))
                   = e\<lparr>playlists := (playlists e)(pn \<mapsto> moved (nat f) (nat t) pl)\<rparr>"
        using Some True u by (simp add: reorder_playlist_def Let_def)
      moreover have "length (moved (nat f) (nat t) pl) = length pl"
        using h by (intro moved_length) simp
      ultimately show ?thesis
        using assms Some by (auto simp: bound_in_step_iff)
    qed
  qed
qed

section \<open>The membership rows mirror the stored playlists\<close>

text \<open>\<open>create_playlist\<close> establishes the mirror when no membership row carries an id beyond
  the sequence, and \<open>add_to_playlist\<close> keeps it.\<close>

lemma enumerate_from_append:
  "enumerate_from i (xs @ ys) = enumerate_from i xs @ enumerate_from (i + int (length xs)) ys"
  by (induction xs arbitrary: i) (simp_all add: add.assoc)

lemma stored_as_create_playlist:
  assumes "playlists e pn = None" "\<not> unavailable db"
    and "pn \<notin> set (map playlists_name (playlists_tbl db))"
    and "\<forall>r \<in> set (playlist_songs db). ps_playlist_id r \<le> playlists_seq db"
  shows "stored_as (snd (snd (create_playlist pn songs e db))) pn
           (case songs of None \<Rightarrow> [] | Some l \<Rightarrow> l)"
proof -
  let ?pid = "playlists_seq db + 1"
  let ?db1 = "db\<lparr>playlists_tbl := playlists_tbl db @
                         [\<lparr>playlists_id = ?pid, playlists_name = pn\<rparr>],
                   playlists_seq := ?pid\<rparr>"
  let ?sgs = "case songs of None \<Rightarrow> [] | Some l \<Rightarrow> l"
  have res: "snd (snd (create_playlist pn songs e db)) = insert_songs ?pid 0 ?sgs ?db1"
    using assms(1-3) by (simp add: create_playlist_def Let_def)
  have "filter (\<lambda>r. playlists_name r = pn) (playlists_tbl db) = []"
    using assms(3) by (auto simp: filter_empty_conv)
  then have sel: "select_playlist_id ?db1 pn = Some ?pid"
    by (simp add: select_playlist_id_def)
  have "filter (\<lambda>r. ps_playlist_id r = ?pid) (playlist_songs db) = []"
    using assms(4) by (auto simp: filter_empty_conv)
  then have rows: "rows_of ?db1 ?pid = []"
    by (simp add: rows_of_def)
  show ?thesis
    unfolding res
    by (simp add: stored_as_def select_playlist_id_insert_songs sel rows_of_insert_songs rows
        numbered_def)
qed

lemma stored_as_add_to_playlist:
  assumes "fst (add_to_playlist sys pn sn e db) = Song_added_to_playlist pn sg"
    and "playlists e pn = Some pl" "stored_as db pn pl"
  shows "playlists (fst (snd (add_to_playlist sys pn sn e db))) pn = Some (pl @ [sg])"
    and "stored_as (snd (snd (add_to_playlist sys pn sn e db))) pn (pl @ [sg])"
proof -
  obtain pid where pid: "select_playlist_id db pn = Some pid"
    and rows: "mset (rows_of db pid) = mset (numbered pl)"
    using assms(3) by (auto simp: stored_as_def split: option.splits)
  have r: "add_to_playlist sys pn sn e db
             = (Song_added_to_playlist pn sg,
                (if current_playlist_name e = Some pn
                 then e\<lparr>playlists := (playlists e)(pn \<mapsto> pl @ [sg]),
                        current_playlist := (current_playlist e @ [sg])\<rparr>
                 else e\<lparr>playlists := (playlists e)(pn \<mapsto> pl @ [sg])\<rparr>),
                insert_songs pid (int (length pl)) [sg] db)"
    using assms(1,2) pid
    by (auto simp: add_to_playlist_def Let_def split: option.splits if_splits)
  show "playlists (fst (snd (add_to_playlist sys pn sn e db))) pn = Some (pl @ [sg])"
    by (simp add: r)
  have sel: "select_playlist_id (insert_songs pid (int (length pl)) [sg] db) pn = Some pid"
    by (simp only: select_playlist_id_insert_songs pid)
  have "mset (rows_of (insert_songs pid (int (length pl)) [sg] db) pid)
          = mset (numbered (pl @ [sg]))"
    by (simp only: rows_of_insert_songs numbered_def enumerate_from_append mset_append
        rows [unfolded numbered_def]) simp
  then have "stored_as (insert_songs pid (int (length pl)) [sg] db) pn (pl @ [sg])"
    unfolding stored_as_def sel by simp
  then show "stored_as (snd (snd (add_to_playlist sys pn sn e db))) pn (pl @ [sg])"
    by (simp only: r snd_conv)
qed

text \<open>Rows that mirror a playlist are read back, by
  \<open>SELECT song_data ... ORDER BY position\<close>, as that playlist.\<close>

lemma enumerate_from_snd: "map snd (enumerate_from i xs) = xs"
  by (induction xs arbitrary: i) simp_all

lemma enumerate_from_lower: "p \<in> set (enumerate_from i xs) \<Longrightarrow> i \<le> fst p"
  by (induction xs arbitrary: i) fastforce+

lemma enumerate_from_sorted: "sorted (map fst (enumerate_from i xs))"
  by (induction xs arbitrary: i) (fastforce dest: enumerate_from_lower)+

lemma enumerate_from_distinct: "distinct (map fst (enumerate_from i xs))"
  by (induction xs arbitrary: i) (fastforce dest: enumerate_from_lower)+

lemma insort_key_map:
  "insort_key f (g x) (map g ys) = map g (insort_key (\<lambda>y. f (g y)) x ys)"
  by (induction ys) simp_all

lemma sort_key_map:
  "sort_key f (map g xs) = map g (sort_key (\<lambda>y. f (g y)) xs)"
  by (induction xs) (simp_all add: insort_key_map)

lemma stored_as_select_songs:
  assumes "stored_as db pn pl"
  shows "\<exists>pid. select_playlist_id db pn = Some pid \<and> select_songs db pid = pl"
proof -
  obtain pid where pid: "select_playlist_id db pn = Some pid"
    and rows: "mset (rows_of db pid) = mset (enumerate_from 0 pl)"
    using assms by (auto simp: stored_as_def numbered_def split: option.splits)
  let ?R = "filter (\<lambda>r. ps_playlist_id r = pid) (playlist_songs db)"
  let ?pr = "\<lambda>r. (ps_position r, ps_song_data r)"
  have set_eq: "set (rows_of db pid) = set (enumerate_from 0 pl)"
    using rows by (rule mset_eq_setD)
  have "inj_on fst (set (enumerate_from 0 pl))"
    using enumerate_from_distinct [of 0 pl] by (simp add: distinct_map)
  then have inj: "inj_on fst (set (rows_of db pid))"
    by (simp only: set_eq)
  have "sort_key fst (rows_of db pid) = enumerate_from 0 pl"
    using rows inj enumerate_from_sorted by (rule sort_key_inj_key_eq)
  then have "map ?pr (sort_key ps_position ?R) = enumerate_from 0 pl"
    by (simp add: rows_of_def sort_key_map)
  then have "map snd (map ?pr (sort_key ps_position ?R)) = pl"
    by (simp only: enumerate_from_snd)
  then have "select_songs db pid = pl"
    by (simp add: select_songs_def comp_def)
  with pid show ?thesis by blast
qed

end
